theory Spec2Isabelle
  imports Complex_Main "HOL-Library.Sublist" "HOL-Library.Log_Nat"
begin

section \<open>Python values\<close>

text \<open>
  Strings are lists of code points below 256 (\<open>char\<close>).  A JSON document, as
  \<open>json.loads\<close> returns it, is a value of \<open>json\<close>; a dictionary keeps its insertion
  order, so it is an association list.  Numbers are integers: the documents of this
  program carry text.
\<close>

datatype json =
    JNull
  | JBool bool
  | JInt int
  | JStr string
  | JList "json list"
  | JDict "(string \<times> json) list"

text \<open>Python truthiness (\<open>if x\<close>, \<open>not x\<close>) of a JSON value.\<close>

fun truthy :: "json \<Rightarrow> bool" where
  "truthy JNull = False"
| "truthy (JBool b) = b"
| "truthy (JInt i) = (i \<noteq> 0)"
| "truthy (JStr s) = (s \<noteq> [])"
| "truthy (JList xs) = (xs \<noteq> [])"
| "truthy (JDict kvs) = (kvs \<noteq> [])"

text \<open>Truthiness of a nullable text column: \<open>None\<close> and \<open>''\<close> are falsy.\<close>

fun truthy_str :: "string option \<Rightarrow> bool" where
  "truthy_str None = False"
| "truthy_str (Some s) = (s \<noteq> [])"

text \<open>\<open>sep.join(xs)\<close>\<close>

fun join :: "string \<Rightarrow> string list \<Rightarrow> string" where
  "join sep [] = []"
| "join sep [x] = x"
| "join sep (x # y # ys) = x @ sep @ join sep (y # ys)"

text \<open>\<open>str(n)\<close> of an integer: its decimal digits.\<close>

definition digit_char :: "nat \<Rightarrow> char" where
  "digit_char d = char_of (48 + d)"

fun str_nat :: "nat \<Rightarrow> string" where
  "str_nat n = (if n < 10 then [digit_char n] else str_nat (n div 10) @ [digit_char (n mod 10)])"

declare str_nat.simps [simp del]

definition str_int :: "int \<Rightarrow> string" where
  "str_int i = (if i < 0 then CHR ''-'' # str_nat (nat (- i)) else str_nat (nat i))"

text \<open>\<open>f"{x}"\<close> of a nullable text value: \<open>None\<close> prints as \<open>None\<close>.\<close>

fun fmt_str :: "string option \<Rightarrow> string" where
  "fmt_str None = ''None''"
| "fmt_str (Some s) = s"


section \<open>Python strings\<close>

definition ascii_lowercase :: string where
  "ascii_lowercase = ''abcdefghijklmnopqrstuvwxyz''"

definition ascii_uppercase :: string where
  "ascii_uppercase = ''ABCDEFGHIJKLMNOPQRSTUVWXYZ''"

text \<open>The capital letters of Latin-1 (0xC0 to 0xDE without the sign 0xD7) and their small forms.\<close>

definition latin1_uppercase :: string where
  "latin1_uppercase =
     [CHR 0xC0, CHR 0xC1, CHR 0xC2, CHR 0xC3, CHR 0xC4, CHR 0xC5, CHR 0xC6, CHR 0xC7,
      CHR 0xC8, CHR 0xC9, CHR 0xCA, CHR 0xCB, CHR 0xCC, CHR 0xCD, CHR 0xCE, CHR 0xCF,
      CHR 0xD0, CHR 0xD1, CHR 0xD2, CHR 0xD3, CHR 0xD4, CHR 0xD5, CHR 0xD6, CHR 0xD8,
      CHR 0xD9, CHR 0xDA, CHR 0xDB, CHR 0xDC, CHR 0xDD, CHR 0xDE]"

definition latin1_lowercase :: string where
  "latin1_lowercase =
     [CHR 0xE0, CHR 0xE1, CHR 0xE2, CHR 0xE3, CHR 0xE4, CHR 0xE5, CHR 0xE6, CHR 0xE7,
      CHR 0xE8, CHR 0xE9, CHR 0xEA, CHR 0xEB, CHR 0xEC, CHR 0xED, CHR 0xEE, CHR 0xEF,
      CHR 0xF0, CHR 0xF1, CHR 0xF2, CHR 0xF3, CHR 0xF4, CHR 0xF5, CHR 0xF6, CHR 0xF8,
      CHR 0xF9, CHR 0xFA, CHR 0xFB, CHR 0xFC, CHR 0xFD, CHR 0xFE]"

text \<open>\<open>str.lower()\<close> on code points below 256.\<close>

definition lower_char :: "char \<Rightarrow> char" where
  "lower_char c =
     (case map_of (zip (ascii_uppercase @ latin1_uppercase)
                       (ascii_lowercase @ latin1_lowercase)) c of
        Some d \<Rightarrow> d
      | None \<Rightarrow> c)"

definition lower :: "string \<Rightarrow> string" where
  "lower s = map lower_char s"

text \<open>\<open>sub in s\<close>\<close>

fun contains :: "string \<Rightarrow> string \<Rightarrow> bool" where
  "contains [] sub = (sub = [])"
| "contains (c # s) sub = (prefix sub (c # s) \<or> contains s sub)"

text \<open>
  \<open>s.replace(old, new)\<close>: every occurrence of \<open>old\<close>, found from the left without
  overlap, becomes \<open>new\<close>; an empty \<open>old\<close> matches before every character and at the end.
\<close>

function replace_from :: "string \<Rightarrow> string \<Rightarrow> string \<Rightarrow> string" where
  "replace_from old new s =
     (if s = [] then []
      else if old \<noteq> [] \<and> prefix old s then new @ replace_from old new (drop (length old) s)
      else hd s # replace_from old new (tl s))"
  by pat_completeness auto
termination
  by (relation "measure (\<lambda>(old, new, s). length s)") auto

declare replace_from.simps [simp del]

definition replace :: "string \<Rightarrow> string \<Rightarrow> string \<Rightarrow> string" where
  "replace old new s =
     (if old = [] then new @ concat (map (\<lambda>c. c # new) s) else replace_from old new s)"

text \<open>
  \<open>str.title()\<close>, on ASCII letters: a letter that follows a letter is lowered, any other
  letter is raised.  A character outside ASCII is left as it is and counts as no
  letter, where Python would case an accented letter; the program applies \<open>title()\<close> to
  the phrases of its own tables and to the names of equipment and places.
\<close>

definition is_ascii_letter :: "char \<Rightarrow> bool" where
  "is_ascii_letter c = (c \<in> set (ascii_lowercase @ ascii_uppercase))"

definition upper_ascii :: "char \<Rightarrow> char" where
  "upper_ascii c =
     (case map_of (zip ascii_lowercase ascii_uppercase) c of Some d \<Rightarrow> d | None \<Rightarrow> c)"

definition lower_ascii :: "char \<Rightarrow> char" where
  "lower_ascii c =
     (case map_of (zip ascii_uppercase ascii_lowercase) c of Some d \<Rightarrow> d | None \<Rightarrow> c)"

fun title_from :: "bool \<Rightarrow> string \<Rightarrow> string" where
  "title_from prev [] = []"
| "title_from prev (c # s) =
     (if is_ascii_letter c
      then (if prev then lower_ascii c else upper_ascii c) # title_from True s
      else c # title_from False s)"

definition title :: "string \<Rightarrow> string" where
  "title s = title_from False s"

text \<open>
  \<open>s.split()\<close>: the maximal runs of characters that are not whitespace.  Below 256 the
  whitespace of \<open>str\<close> is 0x09 to 0x0D, 0x1C to 0x20, 0x85 and 0xA0.
\<close>

definition whitespace :: string where
  "whitespace = [CHR 0x09, CHR 0x0A, CHR 0x0B, CHR 0x0C, CHR 0x0D, CHR 0x1C, CHR 0x1D,
                 CHR 0x1E, CHR 0x1F, CHR 0x20, CHR 0x85, CHR 0xA0]"

definition is_space :: "char \<Rightarrow> bool" where
  "is_space c = (c \<in> set whitespace)"

fun split_from :: "string \<Rightarrow> string \<Rightarrow> string list" where
  "split_from cur [] = (if cur = [] then [] else [cur])"
| "split_from cur (c # s) =
     (if is_space c then (if cur = [] then split_from [] s else cur # split_from [] s)
      else split_from (cur @ [c]) s)"

definition split_ws :: "string \<Rightarrow> string list" where
  "split_ws s = split_from [] s"

text \<open>The exceptions of the Python runtime that the modelled code can meet.\<close>

datatype py_error = TypeError | AttributeError | IndexError | ReError

text \<open>\<open>d.get(k, default)\<close>\<close>

definition dict_get :: "(string \<times> json) list \<Rightarrow> string \<Rightarrow> json \<Rightarrow> json" where
  "dict_get d k dflt = (case map_of d k of None \<Rightarrow> dflt | Some v \<Rightarrow> v)"

text \<open>\<open>d[k] = v\<close>: an existing key keeps its place, a new key goes to the end.\<close>

fun dict_set :: "string \<Rightarrow> json \<Rightarrow> (string \<times> json) list \<Rightarrow> (string \<times> json) list" where
  "dict_set k v [] = [(k, v)]"
| "dict_set k v ((k', v') # d) = (if k' = k then (k, v) # d else (k', v') # dict_set k v d)"

text \<open>\<open>len(v.split())\<close>: only a string has \<open>split\<close>.\<close>

fun count_words :: "json \<Rightarrow> py_error + nat" where
  "count_words (JStr s) = Inr (length (split_ws s))"
| "count_words _ = Inl AttributeError"

text \<open>\<open>len(v)\<close>: a string, a list and a dictionary have a length.\<close>

fun py_len :: "json \<Rightarrow> py_error + nat" where
  "py_len (JStr s) = Inr (length s)"
| "py_len (JList xs) = Inr (length xs)"
| "py_len (JDict kvs) = Inr (length kvs)"
| "py_len _ = Inl TypeError"

text \<open>A sum accumulated by a loop whose body may raise: the first exception ends it.\<close>

fun sum_results :: "('a \<Rightarrow> py_error + nat) \<Rightarrow> 'a list \<Rightarrow> py_error + nat" where
  "sum_results f [] = Inr 0"
| "sum_results f (x # xs) =
     (case f x of
        Inl e \<Rightarrow> Inl e
      | Inr a \<Rightarrow> (case sum_results f xs of Inl e \<Rightarrow> Inl e | Inr b \<Rightarrow> Inr (a + b)))"

text \<open>
  \<open>json.dumps(v)\<close> with its defaults: separators \<open>, \<close> and \<open>: \<close>, and every character
  outside 0x20 to 0x7E, the quote and the backslash escaped.
\<close>

definition hex_digit :: "nat \<Rightarrow> char" where
  "hex_digit d = ''0123456789abcdef'' ! d"

definition escape_char :: "char \<Rightarrow> string" where
  "escape_char c =
     (if c = CHR 0x22 then [CHR 0x5C, CHR 0x22]
      else if c = CHR 0x5C then [CHR 0x5C, CHR 0x5C]
      else if c = CHR 0x0A then [CHR 0x5C, CHR ''n'']
      else if c = CHR 0x0D then [CHR 0x5C, CHR ''r'']
      else if c = CHR 0x09 then [CHR 0x5C, CHR ''t'']
      else if c = CHR 0x08 then [CHR 0x5C, CHR ''b'']
      else if c = CHR 0x0C then [CHR 0x5C, CHR ''f'']
      else let n = (of_char c :: nat)
           in if 32 \<le> n \<and> n \<le> 126 then [c]
              else [CHR 0x5C, CHR ''u'', CHR ''0'', CHR ''0'',
                    hex_digit (n div 16), hex_digit (n mod 16)])"

definition dumps_str :: "string \<Rightarrow> string" where
  "dumps_str s = [CHR 0x22] @ concat (map escape_char s) @ [CHR 0x22]"

fun json_dumps :: "json \<Rightarrow> string"
  and dumps_elems :: "json list \<Rightarrow> string list"
  and dumps_items :: "(string \<times> json) list \<Rightarrow> string list" where
  "json_dumps JNull = ''null''"
| "json_dumps (JBool b) = (if b then ''true'' else ''false'')"
| "json_dumps (JInt i) = str_int i"
| "json_dumps (JStr s) = dumps_str s"
| "json_dumps (JList xs) = ''['' @ join '', '' (dumps_elems xs) @ '']''"
| "json_dumps (JDict kvs) = ''{'' @ join '', '' (dumps_items kvs) @ ''}''"
| "dumps_elems [] = []"
| "dumps_elems (x # xs) = json_dumps x # dumps_elems xs"
| "dumps_items [] = []"
| "dumps_items ((k, v) # kvs) = (dumps_str k @ '': '' @ json_dumps v) # dumps_items kvs"

section \<open>Safety systems\<close>

definition CIRCUIT_BREAKER_THRESHOLD :: int where
  "CIRCUIT_BREAKER_THRESHOLD = 3"

record circuit_breaker =
  threshold :: int
  failures :: int
  is_open :: bool

definition new_circuit_breaker :: circuit_breaker where
  "new_circuit_breaker =
     \<lparr>threshold = CIRCUIT_BREAKER_THRESHOLD, failures = 0, is_open = False\<rparr>"

definition record_success :: "circuit_breaker \<Rightarrow> circuit_breaker" where
  "record_success cb = cb\<lparr>failures := 0, is_open := False\<rparr>"

definition record_failure :: "circuit_breaker \<Rightarrow> circuit_breaker" where
  "record_failure cb =
     (let cb1 = cb\<lparr>failures := failures cb + 1\<rparr>
      in if failures cb1 \<ge> threshold cb1 then cb1\<lparr>is_open := True\<rparr> else cb1)"

definition can_proceed :: "circuit_breaker \<Rightarrow> bool" where
  "can_proceed cb = (if is_open cb then False else True)"

definition reset :: "circuit_breaker \<Rightarrow> circuit_breaker" where
  "reset cb = cb\<lparr>failures := 0, is_open := False\<rparr>"


section \<open>The page registry\<close>

text \<open>
  A row of \<open>decision_nodes\<close>.  Text columns are nullable strings, integer columns
  nullable integers, JSON columns values of \<open>json\<close> (\<open>JNull\<close> for NULL).  Identifiers
  are generated by the database and are never falsy.  A column that an insert does not
  mention is NULL.
\<close>

record node =
  node_id :: nat
  primary_keyword :: "string option"
  url_slug :: "string option"
  normalized_decision_key :: "string option"
  node_type :: "string option"
  equipment_type_id :: "nat option"
  page_category :: "string option"
  spoke_type :: "string option"
  parent_hub_id :: "nat option"
  geo :: "string option"
  modifier :: "string option"
  brand_id :: "string option"
  status :: "string option"
  commercial_score :: "rat option"
  node_total_volume :: "int option"
  difficulty_score :: "int option"
  generated_content :: json
  word_count :: "int option"
  content_version :: "int option"
  faq_count :: "int option"
  sources_used :: "string list option"
  publish_gate_status :: "string option"
  publish_gate_reason :: "string list option"
  short_description :: json
  schema_json :: json
  has_schema_markup :: "bool option"
  hero_image_url :: "string option"
  hero_image_alt :: "string option"
  webflow_item_id :: "string option"
  webflow_status :: "string option"

record equipment_type =
  et_id :: nat
  et_name :: string
  et_slug :: string
  hub_node_id :: "nat option"

text \<open>
  A request sent to the CMS: \<open>requests.post\<close> on the collection (create) or
  \<open>requests.patch\<close> on an item (update).  The payload is computed from the row by
  \<open>prepare_webflow_payload\<close>; the log keeps the row it was computed from.
\<close>

datatype cms_call = CmsCreate node | CmsUpdate string node

text \<open>
  The state the program works on: the process-wide circuit breaker, the two tables, the
  database's identifier counter, and the requests sent to the CMS so far.
\<close>

record world =
  breaker :: circuit_breaker
  nodes :: "node list"
  equipment_types :: "equipment_type list"
  next_id :: nat
  cms_calls :: "cms_call list"

text \<open>\<open>select('*').eq('id', node_id).single()\<close>: the row, or no data.\<close>

definition get_node :: "world \<Rightarrow> nat \<Rightarrow> node option" where
  "get_node w i = find (\<lambda>n. node_id n = i) (nodes w)"

text \<open>A row with the given id and every other column NULL.\<close>

definition blank_node :: "nat \<Rightarrow> node" where
  "blank_node i =
     \<lparr>node_id = i, primary_keyword = None, url_slug = None, normalized_decision_key = None,
      node_type = None, equipment_type_id = None, page_category = None, spoke_type = None,
      parent_hub_id = None, geo = None, modifier = None, brand_id = None, status = None,
      commercial_score = None, node_total_volume = None, difficulty_score = None,
      generated_content = JNull, word_count = None, content_version = None, faq_count = None,
      sources_used = None, publish_gate_status = None, publish_gate_reason = None,
      short_description = JNull, schema_json = JNull, has_schema_markup = None,
      hero_image_url = None, hero_image_alt = None, webflow_item_id = None,
      webflow_status = None\<rparr>"

text \<open>\<open>update({...}).eq('id', node_id)\<close>: the update applied to every row with that id.\<close>

definition update_node :: "world \<Rightarrow> nat \<Rightarrow> (node \<Rightarrow> node) \<Rightarrow> world" where
  "update_node w i f = w\<lparr>nodes := map (\<lambda>n. if node_id n = i then f n else n) (nodes w)\<rparr>"


section \<open>Publisher\<close>

text \<open>
  What a publish call meets outside the program: whether the Webflow token and
  collection id are configured, the \<open>publishing_enabled\<close> flag of the kill switch, the
  site URL, and the outcome of the HTTP request, should one be sent: a response with its
  status code, its text and the result of \<open>response.json()\<close> (a JSON object, or the
  message of the exception it raises), or an exception of the transport with its message.
\<close>

datatype http_outcome =
    HttpResponse int string "string + (string \<times> json) list"
  | HttpRaises string

record publish_env =
  webflow_configured :: bool
  publishing_enabled :: bool
  site_url :: string
  http :: http_outcome

record publish_result =
  success :: bool
  res_node_id :: nat
  error :: "string option"
  validation_errors :: "string list"
  res_item_id :: "string option"
  url :: "string option"

text \<open>The \<open>validation_errors\<close> list of \<open>publish_to_webflow\<close>, in the order of its checks.\<close>

definition publish_validation :: "node \<Rightarrow> string list" where
  "publish_validation n =
     (if \<not> truthy (generated_content n) then [''No generated content''] else []) @
     (if \<not> truthy_str (hero_image_url n) then [''No hero image''] else []) @
     (if \<not> truthy (short_description n) then [''No short description''] else []) @
     (if \<not> truthy_str (page_category n) then [''Missing page_category''] else []) @
     (if page_category n = Some ''spoke'' \<and> \<not> truthy_str (spoke_type n)
      then [''Missing spoke_type''] else [])"

text \<open>\<open>data.get('id') or existing_item_id\<close>, an item id being a string.\<close>

definition response_item_id :: "(string \<times> json) list \<Rightarrow> string option \<Rightarrow> string option" where
  "response_item_id data existing =
     (case map_of data ''id'' of
        Some (JStr s) \<Rightarrow> (if s \<noteq> [] then Some s else existing)
      | _ \<Rightarrow> existing)"

text \<open>
  The part of \<open>publish_to_webflow\<close> after validation: the request is sent (and so
  logged), and its outcome decides between the success branch, the non-2xx branch and the
  \<open>except\<close> branch.
\<close>

definition send_to_cms :: "publish_env \<Rightarrow> world \<Rightarrow> nat \<Rightarrow> node \<Rightarrow> publish_result \<Rightarrow>
    publish_result \<times> world" where
  "send_to_cms env w i node_data result =
     (let existing_item_id = webflow_item_id node_data;
          call = (case existing_item_id of
                    None \<Rightarrow> CmsCreate node_data
                  | Some item \<Rightarrow> if item \<noteq> [] then CmsUpdate item node_data
                                 else CmsCreate node_data);
          w1 = w\<lparr>cms_calls := cms_calls w @ [call]\<rparr>;
          failed = w1\<lparr>breaker := record_failure (breaker w1)\<rparr>
      in case http env of
           HttpRaises msg \<Rightarrow> (result\<lparr>error := Some msg\<rparr>, failed)
         | HttpResponse code txt body \<Rightarrow>
             (if code = 200 \<or> code = 201 \<or> code = 202 then
                (case body of
                   Inl msg \<Rightarrow> (result\<lparr>error := Some msg\<rparr>, failed)
                 | Inr data \<Rightarrow>
                     (let item_id = response_item_id data existing_item_id;
                          w2 = update_node w1 i
                                 (\<lambda>n. n\<lparr>webflow_item_id := item_id,
                                         webflow_status := Some ''published'',
                                         status := Some ''published''\<rparr>);
                          w3 = w2\<lparr>breaker := record_success (breaker w2)\<rparr>
                      in (result\<lparr>success := True, res_item_id := item_id,
                                  url := Some (site_url env @ ''/equipment/'' @
                                               fmt_str (url_slug node_data) @ ''/'')\<rparr>, w3)))
              else
                (result\<lparr>error := Some (''HTTP '' @ str_int code @ '': '' @ take 200 txt)\<rparr>,
                 failed)))"

definition publish_to_webflow :: "publish_env \<Rightarrow> world \<Rightarrow> nat \<Rightarrow> publish_result \<times> world" where
  "publish_to_webflow env w i =
     (let result = \<lparr>success = False, res_node_id = i, error = None, validation_errors = [],
                     res_item_id = None, url = None\<rparr>
      in if \<not> webflow_configured env then (result\<lparr>error := Some ''Webflow not configured''\<rparr>, w)
         else if \<not> publishing_enabled env then (result\<lparr>error := Some ''Kill switch active''\<rparr>, w)
         else if \<not> can_proceed (breaker w) then (result\<lparr>error := Some ''Circuit breaker open''\<rparr>, w)
         else (case get_node w i of
                 None \<Rightarrow> (result\<lparr>error := Some ''Node not found''\<rparr>, w)
               | Some node_data \<Rightarrow>
                   (let errs = publish_validation node_data
                    in if errs \<noteq> [] then
                         (result\<lparr>error := Some (''Publish validation failed: '' @ join '', '' errs),
                                 validation_errors := errs\<rparr>, w)
                       else send_to_cms env w i node_data result)))"

section \<open>Brand compliance\<close>

definition BANNED_PHRASES :: "string list" where
  "BANNED_PHRASES =
     [''our lending'', ''we offer loans'', ''we fund'', ''our rates'', ''we approve'',
      ''our financing'', ''we provide financing'', ''our loan products'', ''we lend'',
      ''get approved by us'', ''our underwriting'', ''we finance'', ''our loans'']"

definition check_brand_compliance :: "string \<Rightarrow> bool \<times> string list" where
  "check_brand_compliance text =
     (if text = [] then (True, [])
      else let text_lower = lower text;
               violations = filter (\<lambda>phrase. contains text_lower phrase) BANNED_PHRASES
           in (length violations = 0, violations))"

definition replacements :: "(string \<times> string) list" where
  "replacements =
     [(''our lending'', ''lending partners in our network''),
      (''our financing'', ''financing options through our partners''),
      (''we offer loans'', ''our lending partners offer''),
      (''we fund'', ''our lending partners fund''),
      (''our rates'', ''rates from our lending partners''),
      (''we approve'', ''our lending partners approve''),
      (''we lend'', ''our lending partners provide''),
      (''our loan products'', ''loan products from our partners''),
      (''we provide financing'', ''our partners provide financing''),
      (''our underwriting'', ''underwriting by our lending partners''),
      (''we finance'', ''our lending partners finance''),
      (''our loans'', ''loans from our lending partners''),
      (''get approved by us'', ''get approved by our lending partners'')]"

definition sanitize_brand_content :: "string \<Rightarrow> string" where
  "sanitize_brand_content text =
     (if text = [] then text
      else fold (\<lambda>(old, new) t. replace (title old) (title new) (replace old new t))
             replacements text)"


section \<open>Quality gates\<close>

record QualityGateResult =
  passed :: bool
  gate_failures :: "string list"
  gate_word_count :: int
  gate_faq_count :: int
  gate_source_count :: int

text \<open>The words that one item of a list value adds: the \<open>q\<close> and \<open>a\<close> of a dictionary.\<close>

fun item_words :: "json \<Rightarrow> py_error + nat" where
  "item_words (JDict d) =
     (case count_words (dict_get d ''q'' (JStr [])) of
        Inl e \<Rightarrow> Inl e
      | Inr a \<Rightarrow> (case count_words (dict_get d ''a'' (JStr [])) of
                   Inl e \<Rightarrow> Inl e
                 | Inr b \<Rightarrow> Inr (a + b)))"
| "item_words _ = Inr 0"

text \<open>The words that one value of the content adds.\<close>

fun value_words :: "json \<Rightarrow> py_error + nat" where
  "value_words (JStr s) = Inr (length (split_ws s))"
| "value_words (JList xs) = sum_results item_words xs"
| "value_words _ = Inr 0"

text \<open>\<open>repr\<close> of a list of phrases, none of which holds a quote or a backslash.\<close>

definition repr_phrases :: "string list \<Rightarrow> string" where
  "repr_phrases ps = ''['' @ join '', '' (map (\<lambda>p. [CHR 0x27] @ p @ [CHR 0x27]) ps) @ '']''"

definition validate_quality_gates ::
    "(string \<times> json) list \<Rightarrow> string list \<Rightarrow> int \<Rightarrow> int \<Rightarrow> int \<Rightarrow> py_error + QualityGateResult" where
  "validate_quality_gates content sources min_words min_sources min_faqs =
     (case sum_results (\<lambda>(key, v). value_words v) content of
        Inl e \<Rightarrow> Inl e
      | Inr wc \<Rightarrow>
          (case py_len (dict_get content ''faq'' (JList [])) of
             Inl e \<Rightarrow> Inl e
           | Inr fc \<Rightarrow>
               (let word_count = int wc;
                    faq_count = int fc;
                    source_count = int (length sources);
                    all_text = json_dumps (JDict content);
                    (is_compliant, violations) = check_brand_compliance all_text;
                    failures =
                      (if word_count < min_words
                       then [''word_count ('' @ str_int word_count @ '') < '' @ str_int min_words]
                       else []) @
                      (if source_count < min_sources
                       then [''sources ('' @ str_int source_count @ '') < '' @ str_int min_sources]
                       else []) @
                      (if faq_count < min_faqs
                       then [''faqs ('' @ str_int faq_count @ '') < '' @ str_int min_faqs]
                       else []) @
                      (if \<not> is_compliant
                       then [''brand_violations: '' @ repr_phrases violations]
                       else [])
                in Inr \<lparr>passed = (length failures = 0), gate_failures = failures,
                        gate_word_count = word_count, gate_faq_count = faq_count,
                        gate_source_count = source_count\<rparr>)))"


section \<open>Content versioning\<close>

definition ENABLE_CONTENT_VERSIONING :: bool where
  "ENABLE_CONTENT_VERSIONING = True"

text \<open>
  The guard compares an integer with the product \<open>current_wc * 0.9\<close>, which Python
  computes in binary64: the integer is converted to a double (OverflowError when it is
  too large), multiplied by the double nearest to 0.9, which is \<open>DOUBLE_0_9 / 2 ^ 53\<close>,
  and the product is rounded to 53 significant bits, ties to even.  All values that
  occur are integers over \<open>2 ^ 53\<close>, so the rounding is done on the numerator.
\<close>

definition round_to_53 :: "nat \<Rightarrow> nat" where
  "round_to_53 p =
     (let b = floorlog 2 p
      in if b \<le> 53 then p
         else let sh = b - 53; q = p div 2 ^ sh; r = p mod 2 ^ sh; half = 2 ^ (sh - 1)
              in (if r < half then q else if half < r then q + 1
                  else if even q then q else q + 1) * 2 ^ sh)"

definition DOUBLE_0_9 :: nat where
  "DOUBLE_0_9 = 8106479329266893"

text \<open>\<open>n >= w * 0.9\<close>, or \<open>None\<close> when the conversion of \<open>w\<close> overflows.\<close>

definition ge_times_0_9 :: "int \<Rightarrow> int \<Rightarrow> bool option" where
  "ge_times_0_9 n w =
     (let m = round_to_53 (nat \<bar>w\<bar>)
      in if 2 ^ 1024 \<le> m then None
         else Some (sgn w * int (round_to_53 (m * DOUBLE_0_9)) \<le> n * 2 ^ 53))"

text \<open>
  The write without a version: the branch for versioning switched off, and the fallback
  of the \<open>except\<close> clause.
\<close>

definition write_content :: "world \<Rightarrow> nat \<Rightarrow> json \<Rightarrow> int \<Rightarrow> world" where
  "write_content w i content wc =
     update_node w i (\<lambda>n. n\<lparr>generated_content := content, word_count := Some wc\<rparr>)"

text \<open>
  \<open>update_content_safe\<close>.  A row that is not found gives the defaults 0 and 0; a NULL
  \<open>word_count\<close> or \<open>content_version\<close> makes the arithmetic raise TypeError, which the
  \<open>except\<close> clause turns into the fallback write.
\<close>

definition update_content_safe :: "world \<Rightarrow> nat \<Rightarrow> json \<Rightarrow> int \<Rightarrow> bool \<times> world" where
  "update_content_safe w i content wc =
     (if \<not> ENABLE_CONTENT_VERSIONING then (True, write_content w i content wc)
      else
        let current = get_node w i;
            current_wc = (case current of None \<Rightarrow> Some 0 | Some n \<Rightarrow> word_count n);
            current_version = (case current of None \<Rightarrow> Some 0 | Some n \<Rightarrow> content_version n)
        in case current_wc of
             None \<Rightarrow> (True, write_content w i content wc)
           | Some cw \<Rightarrow>
               (case ge_times_0_9 wc cw of
                  None \<Rightarrow> (True, write_content w i content wc)
                | Some False \<Rightarrow> (False, w)
                | Some True \<Rightarrow>
                    (case current_version of
                       None \<Rightarrow> (True, write_content w i content wc)
                     | Some v \<Rightarrow>
                         (True, update_node w i
                                  (\<lambda>n. n\<lparr>generated_content := content, word_count := Some wc,
                                          content_version := Some (v + 1)\<rparr>)))))"


section \<open>Schema markup\<close>

definition ENABLE_SCHEMA :: bool where
  "ENABLE_SCHEMA = True"

text \<open>\<open>for x in v\<close>: the items of a list, the characters of a string, the keys of a dictionary.\<close>

fun py_iter :: "json \<Rightarrow> py_error + json list" where
  "py_iter (JList xs) = Inr xs"
| "py_iter (JStr s) = Inr (map (\<lambda>c. JStr [c]) s)"
| "py_iter (JDict kvs) = Inr (map (\<lambda>(k, v). JStr k) kvs)"
| "py_iter _ = Inl TypeError"

text \<open>A loop that builds a list and whose body may raise.\<close>

fun map_results :: "('a \<Rightarrow> py_error + 'b) \<Rightarrow> 'a list \<Rightarrow> py_error + 'b list" where
  "map_results f [] = Inr []"
| "map_results f (x # xs) =
     (case f x of
        Inl e \<Rightarrow> Inl e
      | Inr y \<Rightarrow> (case map_results f xs of Inl e \<Rightarrow> Inl e | Inr ys \<Rightarrow> Inr (y # ys)))"

text \<open>One \<open>Question\<close> of the FAQ schema; \<open>faq.get\<close> needs a dictionary.\<close>

fun faq_question :: "json \<Rightarrow> py_error + json" where
  "faq_question (JDict d) =
     Inr (JDict [(''@type'', JStr ''Question''),
                 (''name'', dict_get d ''q'' (JStr [])),
                 (''acceptedAnswer'',
                  JDict [(''@type'', JStr ''Answer''), (''text'', dict_get d ''a'' (JStr []))])])"
| "faq_question _ = Inl AttributeError"

text \<open>
  \<open>generate_schema_json\<close>, called without a hero image.  The site URL and the date of
  the day come from outside.
\<close>

definition generate_schema_json ::
    "string \<Rightarrow> string \<Rightarrow> json \<Rightarrow> json \<Rightarrow> string \<Rightarrow> string \<Rightarrow> string option \<Rightarrow> json \<Rightarrow>
     py_error + json" where
  "generate_schema_json site today seo_title meta_desc slug equipment geo_opt faq_list =
     (case py_iter (if truthy faq_list then faq_list else JList []) of
        Inl e \<Rightarrow> Inl e
      | Inr faqs \<Rightarrow>
     (case map_results faq_question faqs of
        Inl e \<Rightarrow> Inl e
      | Inr questions \<Rightarrow>
          (let page_url = site @ ''/equipment/'' @ slug @ ''/'';
               org = [(''@type'', JStr ''Organization''), (''name'', JStr ''EquipFlow''),
                      (''url'', JStr site)];
               faq_schema = JDict [(''@context'', JStr ''https://schema.org''),
                                   (''@type'', JStr ''FAQPage''),
                                   (''mainEntity'', JList questions)];
               article_schema =
                 JDict [(''@context'', JStr ''https://schema.org''),
                        (''@type'', JStr ''Article''),
                        (''headline'', seo_title),
                        (''description'', meta_desc),
                        (''author'', JDict org),
                        (''publisher'',
                         JDict (org @ [(''logo'', JDict [(''@type'', JStr ''ImageObject''),
                                                        (''url'', JStr (site @ ''/logo.png''))])])),
                        (''datePublished'', JStr today),
                        (''dateModified'', JStr today),
                        (''mainEntityOfPage'',
                         JDict [(''@type'', JStr ''WebPage''), (''@id'', JStr page_url)])];
               service_schema =
                 JDict [(''@context'', JStr ''https://schema.org''),
                        (''@type'', JStr ''Service''),
                        (''name'', JStr (title equipment @ '' Financing'')),
                        (''description'', meta_desc),
                        (''provider'', JDict org),
                        (''areaServed'',
                         JDict [(''@type'', JStr ''Place''),
                                (''name'', JStr (if truthy_str geo_opt then the geo_opt
                                                 else ''United States''))]),
                        (''serviceType'', JStr ''Equipment Financing'')];
               breadcrumb_start =
                 [JDict [(''@type'', JStr ''ListItem''), (''position'', JInt 1),
                         (''name'', JStr ''Home''), (''item'', JStr site)],
                  JDict [(''@type'', JStr ''ListItem''), (''position'', JInt 2),
                         (''name'', JStr ''Equipment Financing''),
                         (''item'', JStr (site @ ''/equipment-financing''))]];
               breadcrumb_geo =
                 (if truthy_str geo_opt
                  then [JDict [(''@type'', JStr ''ListItem''), (''position'', JInt 3),
                               (''name'', JStr (title (the geo_opt) @ '' Financing'')),
                               (''item'', JStr (site @ ''/'' @
                                   replace '' '' ''-'' (lower (the geo_opt)) @ ''-financing''))]]
                  else []);
               breadcrumb_items = breadcrumb_start @ breadcrumb_geo;
               breadcrumb_schema =
                 JDict [(''@context'', JStr ''https://schema.org''),
                        (''@type'', JStr ''BreadcrumbList''),
                        (''itemListElement'',
                         JList (breadcrumb_items @
                                [JDict [(''@type'', JStr ''ListItem''),
                                        (''position'', JInt (int (length breadcrumb_items) + 1)),
                                        (''name'', seo_title), (''item'', JStr page_url)]]))]
           in Inr (JDict [(''@context'', JStr ''https://schema.org''),
                          (''@graph'', JList [faq_schema, article_schema, service_schema,
                                              breadcrumb_schema])]))))"


section \<open>Content generation\<close>

text \<open>
  What a generation run meets outside the program: the URLs that the intelligence stage
  has scraped (none when that stage is off) and the LSI keywords it found, the answer of
  the budget check, the outcome of the model call (the message of the exception it
  raises, or the value that \<open>parse_json_safely\<close> makes of the reply, \<open>JNull\<close> for
  \<open>None\<close>), the site URL and the date of the day.  The prompt that is sent does not
  bear on any value computed here.
\<close>

record generation_env =
  sources :: "string list"
  lsi_keywords :: "string list"
  budget_ok :: bool
  reply :: "string + json"
  gen_site_url :: string
  today :: string

datatype gen_failure = Msg string | Exc py_error

record generation_result =
  gen_success :: bool
  gen_error :: "gen_failure option"
  gen_validation_errors :: "string list"
  res_lsi_keywords :: "string list"
  schema_generated :: bool
  res_word_count :: "int option"
  gate_passed :: "bool option"

text \<open>The dictionary \<open>update_data\<close>.\<close>

record update_data =
  ud_generated_content :: json
  ud_word_count :: int
  ud_faq_count :: int
  ud_sources_used :: "string list"
  ud_status :: string
  ud_publish_gate_status :: string
  ud_publish_gate_reason :: "string list option"
  ud_short_description :: json
  ud_schema_json :: "json option"

text \<open>The join \<open>equipment_types!...(name, slug)\<close> of the select.\<close>

definition linked_equipment_type :: "world \<Rightarrow> node \<Rightarrow> equipment_type option" where
  "linked_equipment_type w n =
     (case equipment_type_id n of
        None \<Rightarrow> None
      | Some e \<Rightarrow> find (\<lambda>t. et_id t = e) (equipment_types w))"

definition generation_validation :: "world \<Rightarrow> node \<Rightarrow> string list" where
  "generation_validation w n =
     (if equipment_type_id n = None then [''Missing equipment_type_id''] else []) @
     (if linked_equipment_type w n = None then [''No linked equipment_types record''] else []) @
     (if \<not> truthy_str (page_category n) then [''Missing page_category (hub/spoke)''] else []) @
     (if page_category n = Some ''spoke''
      then (if \<not> truthy_str (spoke_type n) then [''Missing spoke_type for spoke page''] else []) @
           (if parent_hub_id n = None then [''Missing parent_hub_id for spoke page''] else [])
      else []) @
     (if \<not> truthy_str (url_slug n) then [''Missing url_slug''] else [])"

text \<open>
  \<open>sanitize_brand_content\<close> on a value of any type: a falsy value is returned as it is,
  and only a string has \<open>replace\<close>.
\<close>

fun sanitize_value :: "json \<Rightarrow> py_error + json" where
  "sanitize_value (JStr s) = Inr (JStr (sanitize_brand_content s))"
| "sanitize_value v = (if truthy v then Inl AttributeError else Inr v)"

fun sanitize_item :: "json \<Rightarrow> py_error + json" where
  "sanitize_item (JDict d) =
     (case sanitize_value (dict_get d ''q'' (JStr [])) of
        Inl e \<Rightarrow> Inl e
      | Inr q \<Rightarrow> (case sanitize_value (dict_get d ''a'' (JStr [])) of
                   Inl e \<Rightarrow> Inl e
                 | Inr a \<Rightarrow> Inr (JDict [(''q'', q), (''a'', a)])))"
| "sanitize_item v = Inr v"

fun sanitize_entry :: "string \<times> json \<Rightarrow> py_error + (string \<times> json)" where
  "sanitize_entry (k, JStr s) = Inr (k, JStr (sanitize_brand_content s))"
| "sanitize_entry (k, JList xs) =
     (case map_results sanitize_item xs of Inl e \<Rightarrow> Inl e | Inr ys \<Rightarrow> Inr (k, JList ys))"
| "sanitize_entry (k, v) = Inr (k, v)"

text \<open>The word count of \<open>generate_content_for_node\<close>: the string values, and the FAQ.\<close>

fun string_words :: "json \<Rightarrow> nat" where
  "string_words (JStr s) = length (split_ws s)"
| "string_words _ = 0"

fun faq_words :: "json \<Rightarrow> py_error + nat" where
  "faq_words (JDict d) =
     (case count_words (dict_get d ''q'' (JStr [])) of
        Inl e \<Rightarrow> Inl e
      | Inr a \<Rightarrow> (case count_words (dict_get d ''a'' (JStr [])) of
                   Inl e \<Rightarrow> Inl e
                 | Inr b \<Rightarrow> Inr (a + b)))"
| "faq_words _ = Inl AttributeError"

definition content_word_count :: "(string \<times> json) list \<Rightarrow> py_error + int" where
  "content_word_count content =
     (case py_iter (dict_get content ''faq'' (JList [])) of
        Inl e \<Rightarrow> Inl e
      | Inr faqs \<Rightarrow>
          (case sum_results faq_words faqs of
             Inl e \<Rightarrow> Inl e
           | Inr n \<Rightarrow> Inr (int (sum_list (map (\<lambda>(k, v). string_words v) content)) + int n)))"

text \<open>The short description that is filled in when the content has none.\<close>

definition default_short_description :: "string option \<Rightarrow> string option \<Rightarrow> string \<Rightarrow> string" where
  "default_short_description category stype equipment_name =
     (if category = Some ''hub''
      then ''Compare '' @ lower equipment_name @ '' financing, rental & buying options''
      else if stype = Some ''financing''
      then ''Get flexible '' @ lower equipment_name @ '' financing options''
      else if stype = Some ''rental''
      then ''Rent quality '' @ lower equipment_name @ '' for your project''
      else if stype = Some ''for-sale''
      then ''Find '' @ lower equipment_name @ '' for sale near you''
      else ''Explore '' @ lower equipment_name @ '' options'')"

text \<open>A nullable text value as a JSON value.\<close>

fun json_of_str :: "string option \<Rightarrow> json" where
  "json_of_str None = JNull"
| "json_of_str (Some s) = JStr s"

text \<open>
  The part of the \<open>try\<close> block between the parsed reply and the writes: sanitizing, the
  word count, the quality gates, the schema, the short description, and \<open>update_data\<close>.
  A reply that is not a dictionary raises in the first loop.
\<close>

definition build_update_data ::
    "generation_env \<Rightarrow> node \<Rightarrow> equipment_type \<Rightarrow> json \<Rightarrow>
     py_error + (update_data \<times> int \<times> QualityGateResult)" where
  "build_update_data env n et parsed =
     (case parsed of
        JDict raw \<Rightarrow>
          (case map_results sanitize_entry raw of
             Inl e \<Rightarrow> Inl e
           | Inr content \<Rightarrow>
          (case content_word_count content of
             Inl e \<Rightarrow> Inl e
           | Inr wc \<Rightarrow>
          (case validate_quality_gates content (sources env) 800 2 4 of
             Inl e \<Rightarrow> Inl e
           | Inr gate_result \<Rightarrow>
          (case (if ENABLE_SCHEMA
                 then map_sum id Some
                        (generate_schema_json (gen_site_url env) (today env)
                           (dict_get content ''seo_title'' (json_of_str (primary_keyword n)))
                           (dict_get content ''meta_desc'' (JStr []))
                           (fmt_str (url_slug n)) (et_name et) (geo n)
                           (dict_get content ''faq'' (JList [])))
                 else Inr None) of
             Inl e \<Rightarrow> Inl e
           | Inr schema \<Rightarrow>
               (let content2 =
                      (if \<not> truthy (dict_get content ''short_description'' JNull)
                       then dict_set ''short_description''
                              (JStr (default_short_description (page_category n) (spoke_type n)
                                       (et_name et))) content
                       else content)
                in case py_len (dict_get content2 ''faq'' (JList [])) of
                     Inl e \<Rightarrow> Inl e
                   | Inr fc \<Rightarrow>
                       Inr (\<lparr>ud_generated_content = JDict content2,
                             ud_word_count = wc,
                             ud_faq_count = int fc,
                             ud_sources_used = sources env,
                             ud_status = (if passed gate_result then ''ready_to_publish''
                                          else ''blocked_quality''),
                             ud_publish_gate_status = (if passed gate_result then ''passed''
                                                       else ''blocked''),
                             ud_publish_gate_reason =
                               (if gate_failures gate_result \<noteq> []
                                then Some (gate_failures gate_result) else None),
                             ud_short_description =
                               dict_get content2 ''short_description'' (JStr []),
                             ud_schema_json = schema\<rparr>, wc, gate_result))))))
      | _ \<Rightarrow> Inl TypeError)"

text \<open>
  The update of the fields other than \<open>generated_content\<close> and \<open>word_count\<close>.  The schema
  is a dictionary that is not empty, so its two fields are always among them when it was
  generated.
\<close>

definition other_fields :: "update_data \<Rightarrow> node \<Rightarrow> node" where
  "other_fields u n =
     (let n1 = n\<lparr>faq_count := Some (ud_faq_count u),
                 sources_used := Some (ud_sources_used u),
                 status := Some (ud_status u),
                 publish_gate_status := Some (ud_publish_gate_status u),
                 publish_gate_reason := ud_publish_gate_reason u,
                 short_description := ud_short_description u\<rparr>
      in case ud_schema_json u of
           None \<Rightarrow> n1
         | Some sch \<Rightarrow> n1\<lparr>schema_json := sch, has_schema_markup := Some True\<rparr>)"

definition generate_content_for_node ::
    "generation_env \<Rightarrow> world \<Rightarrow> nat \<Rightarrow> generation_result \<times> world" where
  "generate_content_for_node env w i =
     (let result = \<lparr>gen_success = False, gen_error = None, gen_validation_errors = [],
                     res_lsi_keywords = [], schema_generated = False, res_word_count = None,
                     gate_passed = None\<rparr>
      in case get_node w i of
           None \<Rightarrow> (result\<lparr>gen_error := Some (Msg ''Node not found'')\<rparr>, w)
         | Some node_data \<Rightarrow>
             (let errs = generation_validation w node_data
              in if errs \<noteq> [] then
                   (result\<lparr>gen_error := Some (Msg (''Validation failed: '' @ join '', '' errs)),
                           gen_validation_errors := errs\<rparr>, w)
                 else
                   (let et = the (linked_equipment_type w node_data);
                        result1 = result\<lparr>res_lsi_keywords := lsi_keywords env\<rparr>
                    in if \<not> budget_ok env
                       then (result1\<lparr>gen_error := Some (Msg ''Claude budget exceeded'')\<rparr>, w)
                       else case reply env of
                              Inl msg \<Rightarrow> (result1\<lparr>gen_error := Some (Msg msg)\<rparr>, w)
                            | Inr parsed \<Rightarrow>
                                if \<not> truthy parsed
                                then (result1\<lparr>gen_error := Some (Msg ''Failed to parse content'')\<rparr>, w)
                                else (case build_update_data env node_data et parsed of
                                        Inl e \<Rightarrow> (result1\<lparr>gen_error := Some (Exc e)\<rparr>, w)
                                      | Inr (u, wc, gate_result) \<Rightarrow>
                                          (let w1 = (if ENABLE_CONTENT_VERSIONING
                                                     then update_node
                                                            (snd (update_content_safe w i
                                                                    (ud_generated_content u) wc))
                                                            i (other_fields u)
                                                     else update_node w i
                                                            (\<lambda>n. other_fields u
                                                               (n\<lparr>generated_content :=
                                                                      ud_generated_content u,
                                                                    word_count := Some wc\<rparr>)))
                                           in (result1\<lparr>gen_success := True,
                                                       schema_generated := ENABLE_SCHEMA,
                                                       res_word_count := Some wc,
                                                       gate_passed := Some (passed gate_result)\<rparr>,
                                               w1))))))"


section \<open>URL slugs\<close>

text \<open>
  \<open>normalize_text\<close> decomposes its text (NFKD) and drops the combining marks.  Below
  128 every character is its own decomposition; from 128 to 255 the table gives what is
  left of it.  Two code points above 255 occur in those decompositions: the Greek small
  mu (from the micro sign) is written as the micro sign, the fraction slash as a slash;
  like them, these are neither letters from a to z, digits, whitespace nor the hyphen,
  which is all that the slug looks at.
\<close>

definition nfkd_table :: "(char \<times> string) list" where
  "nfkd_table =
     [(CHR 0xA0, '' ''), (CHR 0xA8, '' ''), (CHR 0xAA, ''a''), (CHR 0xAF, '' ''),
      (CHR 0xB2, ''2''), (CHR 0xB3, ''3''), (CHR 0xB4, '' ''), (CHR 0xB5, [CHR 0xB5]),
      (CHR 0xB8, '' ''), (CHR 0xB9, ''1''), (CHR 0xBA, ''o''), (CHR 0xBC, ''1/4''),
      (CHR 0xBD, ''1/2''), (CHR 0xBE, ''3/4''), (CHR 0xC0, ''A''), (CHR 0xC1, ''A''),
      (CHR 0xC2, ''A''), (CHR 0xC3, ''A''), (CHR 0xC4, ''A''), (CHR 0xC5, ''A''),
      (CHR 0xC7, ''C''), (CHR 0xC8, ''E''), (CHR 0xC9, ''E''), (CHR 0xCA, ''E''),
      (CHR 0xCB, ''E''), (CHR 0xCC, ''I''), (CHR 0xCD, ''I''), (CHR 0xCE, ''I''),
      (CHR 0xCF, ''I''), (CHR 0xD1, ''N''), (CHR 0xD2, ''O''), (CHR 0xD3, ''O''),
      (CHR 0xD4, ''O''), (CHR 0xD5, ''O''), (CHR 0xD6, ''O''), (CHR 0xD9, ''U''),
      (CHR 0xDA, ''U''), (CHR 0xDB, ''U''), (CHR 0xDC, ''U''), (CHR 0xDD, ''Y''),
      (CHR 0xE0, ''a''), (CHR 0xE1, ''a''), (CHR 0xE2, ''a''), (CHR 0xE3, ''a''),
      (CHR 0xE4, ''a''), (CHR 0xE5, ''a''), (CHR 0xE7, ''c''), (CHR 0xE8, ''e''),
      (CHR 0xE9, ''e''), (CHR 0xEA, ''e''), (CHR 0xEB, ''e''), (CHR 0xEC, ''i''),
      (CHR 0xED, ''i''), (CHR 0xEE, ''i''), (CHR 0xEF, ''i''), (CHR 0xF1, ''n''),
      (CHR 0xF2, ''o''), (CHR 0xF3, ''o''), (CHR 0xF4, ''o''), (CHR 0xF5, ''o''),
      (CHR 0xF6, ''o''), (CHR 0xF9, ''u''), (CHR 0xFA, ''u''), (CHR 0xFB, ''u''),
      (CHR 0xFC, ''u''), (CHR 0xFD, ''y''), (CHR 0xFF, ''y'')]"

definition nfkd_strip :: "char \<Rightarrow> string" where
  "nfkd_strip c =
     (if digit7 c then (case map_of nfkd_table c of Some d \<Rightarrow> d | None \<Rightarrow> [c]) else [c])"

definition normalize_text :: "string \<Rightarrow> string" where
  "normalize_text text =
     (if text = [] then [] else join '' '' (split_ws (lower (concat (map nfkd_strip text)))))"

text \<open>\<open>re.sub(r'\-+', '-', s)\<close>\<close>

fun collapse_hyphens :: "string \<Rightarrow> string" where
  "collapse_hyphens (a # b # s) =
     (if a = CHR ''-'' \<and> b = CHR ''-'' then collapse_hyphens (b # s)
      else a # collapse_hyphens (b # s))"
| "collapse_hyphens s = s"

text \<open>\<open>s.strip('-')\<close>\<close>

definition strip_hyphens :: "string \<Rightarrow> string" where
  "strip_hyphens s =
     rev (dropWhile (\<lambda>c. c = CHR ''-'') (rev (dropWhile (\<lambda>c. c = CHR ''-'') s)))"

definition generate_url_slug :: "string \<Rightarrow> string" where
  "generate_url_slug text =
     (let normalized = normalize_text text;
          slug1 = replace '' '' ''-'' normalized;
          slug2 = filter (\<lambda>c. c \<in> set ''abcdefghijklmnopqrstuvwxyz0123456789-'') slug1;
          slug3 = collapse_hyphens slug2
      in take 100 (strip_hyphens slug3))"


section \<open>Decision engine and cluster creation\<close>

text \<open>
  The constraints of the two tables are not in the source.  They are a parameter: what
  the database answers to an insert, given the rows of the table and the row offered.
  A rejected insert raises, and both insert sites catch the exception.
\<close>

record table_constraints =
  accepts_node :: "node list \<Rightarrow> node \<Rightarrow> bool"
  accepts_type :: "equipment_type list \<Rightarrow> equipment_type \<Rightarrow> bool"

text \<open>A database without constraints.\<close>

definition no_constraints :: table_constraints where
  "no_constraints = \<lparr>accepts_node = (\<lambda>rows row. True), accepts_type = (\<lambda>rows row. True)\<rparr>"

text \<open>
  Modelled from the spec: the constraints of \<open>decision_nodes\<close> are not in the source;
  the data model of the spec says that \<open>url_slug\<close> is unique.
\<close>

definition unique_url_slug :: table_constraints where
  "unique_url_slug =
     \<lparr>accepts_node = (\<lambda>rows row. url_slug row \<notin> set (map url_slug rows)),
      accepts_type = (\<lambda>rows row. True)\<rparr>"

text \<open>An insert: the database gives the row the next identifier, or rejects it.\<close>

definition insert_node :: "table_constraints \<Rightarrow> world \<Rightarrow> node \<Rightarrow> nat option \<times> world" where
  "insert_node db w row =
     (let row1 = row\<lparr>node_id := next_id w\<rparr>
      in if accepts_node db (nodes w) row1
         then (Some (next_id w), w\<lparr>nodes := nodes w @ [row1], next_id := next_id w + 1\<rparr>)
         else (None, w))"

definition insert_type :: "table_constraints \<Rightarrow> world \<Rightarrow> string \<Rightarrow> string \<Rightarrow> nat option \<times> world" where
  "insert_type db w nm slug =
     (let row = \<lparr>et_id = next_id w, et_name = nm, et_slug = slug, hub_node_id = None\<rparr>
      in if accepts_type db (equipment_types w) row
         then (Some (next_id w),
               w\<lparr>equipment_types := equipment_types w @ [row], next_id := next_id w + 1\<rparr>)
         else (None, w))"

record ClassifiedKeyword =
  original_keyword :: string
  ck_equipment_type :: string
  ck_geo :: "string option"
  ck_modifier :: "string option"
  ck_brand :: "string option"
  ck_spoke_type :: string
  ck_page_category :: string
  commercial :: rat
  priority_score :: rat

definition get_or_create_equipment_type :: "table_constraints \<Rightarrow> world \<Rightarrow> string \<Rightarrow> nat option \<times> world" where
  "get_or_create_equipment_type db w equipment_name =
     (let slug = generate_url_slug equipment_name
      in case find (\<lambda>t. et_slug t = slug) (equipment_types w) of
           Some t \<Rightarrow> (Some (et_id t), w)
         | None \<Rightarrow> insert_type db w (title equipment_name) slug)"

text \<open>
  \<open>check_page_exists\<close>: a falsy \<open>geo\<close>, \<open>modifier\<close> or \<open>brand_id\<close> (None or the empty
  string) asks for NULL, respectively for nothing.
\<close>

definition check_page_exists ::
    "world \<Rightarrow> nat \<Rightarrow> string \<Rightarrow> string option \<Rightarrow> string option \<Rightarrow> string option \<Rightarrow> nat option" where
  "check_page_exists w etid stype g m b =
     map_option node_id
       (find (\<lambda>n. equipment_type_id n = Some etid
                 \<and> (if stype = ''hub'' then page_category n = Some ''hub''
                      else spoke_type n = Some stype)
                 \<and> (if truthy_str g then geo n = g else geo n = None)
                 \<and> (if truthy_str m then modifier n = m else modifier n = None)
                 \<and> (if truthy_str b then brand_id n = b else True))
             (nodes w))"

text \<open>The hub of an equipment type, as both creation functions look it up.\<close>

definition find_hub :: "world \<Rightarrow> nat \<Rightarrow> nat option" where
  "find_hub w etid =
     map_option node_id
       (find (\<lambda>n. equipment_type_id n = Some etid \<and> page_category n = Some ''hub'') (nodes w))"

definition create_spoke_page ::
    "table_constraints \<Rightarrow> world \<Rightarrow> nat \<Rightarrow> string \<Rightarrow> string \<Rightarrow> string \<Rightarrow> string option \<Rightarrow>
     string option \<Rightarrow> string option \<Rightarrow> nat option \<Rightarrow> int \<Rightarrow> int \<Rightarrow> nat option \<times> world" where
  "create_spoke_page db w etid equipment_name stype keyword g m b parent volume kd =
     (let parent1 = (case parent of Some h \<Rightarrow> Some h | None \<Rightarrow> find_hub w etid);
          slug_parts = [equipment_name] @
                       (if stype \<noteq> [] \<and> stype \<noteq> ''financing''
                        then [replace ''-'' '' '' stype] else [''financing'']) @
                       (if truthy_str g then [the g] else []) @
                       (if truthy_str m then [the m] else []);
          slug = generate_url_slug (join '' '' slug_parts)
      in insert_node db w
           ((blank_node 0)\<lparr>primary_keyword := Some keyword, url_slug := Some slug,
              normalized_decision_key := Some slug, node_type := Some ''spoke'',
              equipment_type_id := Some etid, page_category := Some ''spoke'',
              spoke_type := Some stype, parent_hub_id := parent1, geo := g, modifier := m,
              brand_id := b, status := Some ''discovery'', node_total_volume := Some volume,
              difficulty_score := Some kd\<rparr>))"

text \<open>The loop over the default spokes; it returns the number of pages it created.\<close>

fun create_default_spokes ::
    "table_constraints \<Rightarrow> world \<Rightarrow> nat \<Rightarrow> string \<Rightarrow> nat option \<Rightarrow> (string \<times> string) list \<Rightarrow>
     int \<times> world" where
  "create_default_spokes db w etid equipment_name hub [] = (0, w)"
| "create_default_spokes db w etid equipment_name hub ((stype, keyword) # spokes) =
     (case check_page_exists w etid stype None None None of
        Some existing \<Rightarrow> create_default_spokes db w etid equipment_name hub spokes
      | None \<Rightarrow>
          (case create_spoke_page db w etid equipment_name stype keyword None None None hub 0 0 of
             (created, w1) \<Rightarrow>
               (case create_default_spokes db w1 etid equipment_name hub spokes of
                  (k, w2) \<Rightarrow> ((if created = None then 0 else 1) + k, w2))))"

text \<open>
  \<open>create_equipment_cluster\<close>, as the number of pages created and the new state.  The
  final \<open>update_hub_spoke_grid\<close> writes only the column \<open>spoke_grid\<close> of the hub, which the
  rows of the model do not carry.
\<close>

definition create_equipment_cluster :: "table_constraints \<Rightarrow> world \<Rightarrow> nat \<Rightarrow> string \<Rightarrow> int \<times> world" where
  "create_equipment_cluster db w etid equipment_name =
     (let existing_hub = find_hub w etid;
          (hub_created, hub, w1) =
            (case existing_hub of
               Some h \<Rightarrow> (0, Some h, w)
             | None \<Rightarrow>
                 (let slug = generate_url_slug equipment_name
                  in case insert_node db w
                            ((blank_node 0)\<lparr>primary_keyword := Some (title equipment_name),
                               url_slug := Some slug, normalized_decision_key := Some slug,
                               node_type := Some ''hub'', equipment_type_id := Some etid,
                               page_category := Some ''hub'', spoke_type := None,
                               status := Some ''discovery'', commercial_score := Some 8\<rparr>) of
                       (Some h, w') \<Rightarrow>
                         (1, Some h,
                          w'\<lparr>equipment_types :=
                                map (\<lambda>t. if et_id t = etid then t\<lparr>hub_node_id := Some h\<rparr> else t)
                                    (equipment_types w')\<rparr>)
                     | (None, w') \<Rightarrow> (0, None, w')));
          (spokes_created, w2) =
            create_default_spokes db w1 etid equipment_name hub
              [(''financing'', equipment_name @ '' financing''),
               (''for-sale'', equipment_name @ '' for sale''),
               (''rental'', equipment_name @ '' rental'')]
      in (hub_created + spokes_created, w2))"

record decision =
  keyword :: string
  actions :: "string list"
  pages_created :: int
  pages_skipped :: int
  decision_error :: "string option"

definition decide_and_queue ::
    "table_constraints \<Rightarrow> world \<Rightarrow> ClassifiedKeyword \<Rightarrow> int \<Rightarrow> int \<Rightarrow> decision \<times> world" where
  "decide_and_queue db w classified volume kd =
     (let result = \<lparr>keyword = original_keyword classified, actions = [], pages_created = 0,
                     pages_skipped = 0, decision_error = None\<rparr>
      in case get_or_create_equipment_type db w (ck_equipment_type classified) of
           (None, w0) \<Rightarrow> (result\<lparr>decision_error := Some ''Failed to get equipment type''\<rparr>, w0)
         | (Some etid, w0) \<Rightarrow>
             (let hub_exists = check_page_exists w0 etid ''hub'' None None None
              in if ck_spoke_type classified = ''hub'' \<and> hub_exists = None
                 then (case create_equipment_cluster db w0 etid (ck_equipment_type classified) of
                         (k, w1) \<Rightarrow>
                           (result\<lparr>actions := [''Created cluster: '' @ str_int k @ '' pages''],
                                   pages_created := k\<rparr>, w1))
                 else
                   (let (result1, w1) =
                          (if hub_exists = None
                           then (case create_equipment_cluster db w0 etid
                                        (ck_equipment_type classified) of
                                   (k, w') \<Rightarrow>
                                     (result\<lparr>actions := [''Created cluster: '' @ str_int k @
                                                         '' pages''],
                                             pages_created := k\<rparr>, w'))
                           else (result, w0))
                    in if ck_spoke_type classified \<noteq> ''hub''
                       then (case check_page_exists w1 etid (ck_spoke_type classified)
                                    (ck_geo classified) (ck_modifier classified) None of
                               Some existing \<Rightarrow>
                                 (result1\<lparr>pages_skipped := pages_skipped result1 + 1,
                                          actions := actions result1 @
                                            [''Skipped: '' @ ck_spoke_type classified @
                                             '' page exists'']\<rparr>, w1)
                             | None \<Rightarrow>
                                 (case create_spoke_page db w1 etid (ck_equipment_type classified)
                                         (ck_spoke_type classified) (original_keyword classified)
                                         (ck_geo classified) (ck_modifier classified) None None
                                         volume kd of
                                    (Some created, w2) \<Rightarrow>
                                      (result1\<lparr>pages_created := pages_created result1 + 1,
                                               actions := actions result1 @
                                                 [''Created '' @ ck_spoke_type classified @
                                                  '' spoke'']\<rparr>, w2)
                                  | (None, w2) \<Rightarrow> (result1, w2)))
                       else (result1, w1))))"


section \<open>Interlinking: injection of links into the body\<close>

text \<open>
  A candidate link, as \<open>generate_internal_links\<close> builds it: the anchor text is the
  \<open>primary_keyword\<close> of the target (NULL is \<open>None\<close>), the URL and the type are strings.
\<close>

record link =
  link_url :: string
  link_text :: "string option"
  link_type :: string

text \<open>
  The three icons of the related-links block are code points above 255.  They stand in
  the model as the characters 0x80, 0x81 and 0x82, which like them are neither letters
  nor whitespace.
\<close>

definition icon_of :: "string \<Rightarrow> string" where
  "icon_of t = (if t = ''parent_hub'' then [CHR 0x80, CHR '' '']
                else if t = ''sibling'' then [CHR 0x81, CHR '' '']
                else [CHR 0x82, CHR '' ''])"

definition generate_related_links_html :: "link list \<Rightarrow> string" where
  \<open>generate_related_links_html related_links =
     (if related_links = [] then []
      else ''<div class="related-links"><h3>Related Resources</h3><ul>'' @
           concat (map (\<lambda>l. ''<li><a href="'' @ link_url l @ ''">'' @ icon_of (link_type l) @
                                fmt_str (link_text l) @ ''</a></li>'')
                       (take 6 related_links)) @
           ''</ul></div>'')\<close>

text \<open>
  Matching without regard to case, as \<open>re.IGNORECASE\<close> does it below 256: two characters
  match when their lower-case forms are equal.
\<close>

fun ci_prefix :: "string \<Rightarrow> string \<Rightarrow> bool" where
  "ci_prefix [] s = True"
| "ci_prefix (p # ps) [] = False"
| "ci_prefix (p # ps) (c # s) = (if lower_char p = lower_char c then ci_prefix ps s else False)"

text \<open>
  The pattern \<open>(?<!</a>)(?<!href=")(VARIATION)(?!</a>)(?!">)\<close> at one position: the
  variation is read from there, the text before (kept reversed) ends neither in \<open></a>\<close>
  nor in \<open>href="\<close>, and the text after starts neither with \<open></a>\<close> nor with \<open>">\<close>.
\<close>

definition matches_at :: "string \<Rightarrow> string \<Rightarrow> string \<Rightarrow> bool" where
  \<open>matches_at variation rbefore rest =
     (if \<not> ci_prefix variation rest then False
      else if ci_prefix (rev ''</a>'') rbefore then False
      else if ci_prefix (rev ''href="'') rbefore then False
      else if ci_prefix ''</a>'' (drop (length variation) rest) then False
      else if ci_prefix ''">'' (drop (length variation) rest) then False
      else True)\<close>

text \<open>
  \<open>pattern.search\<close>: the leftmost position where the pattern matches, as the text
  before it, the matched text and the text after it.
\<close>

fun search_from :: "string \<Rightarrow> string \<Rightarrow> string \<Rightarrow> (string \<times> string \<times> string) option" where
  "search_from variation rbefore [] =
     (if matches_at variation rbefore [] then Some (rev rbefore, [], []) else None)"
| "search_from variation rbefore (c # s) =
     (if matches_at variation rbefore (c # s)
      then Some (rev rbefore, take (length variation) (c # s), drop (length variation) (c # s))
      else search_from variation (c # rbefore) s)"

text \<open>
  \<open>pattern.sub(replacement, text, count=1)\<close> treats the replacement as a template.  A
  template without a backslash stands for itself.  The expansion of one with a backslash
  (group references and escapes, or \<open>re.error\<close>) is the library's: it is the parameter
  \<open>tmpl\<close>, from the template and the matched text to the text put in place of the match.
\<close>

type_synonym template_expansion = "string \<Rightarrow> string \<Rightarrow> py_error + string"

definition expand_template :: "template_expansion \<Rightarrow> string \<Rightarrow> string \<Rightarrow> py_error + string" where
  "expand_template tmpl replacement matched =
     (if CHR 0x5C \<in> set replacement then tmpl replacement matched else Inr replacement)"

text \<open>
  The list \<open>variations\<close>; its last entry is \<open>anchor_text.split()[0]\<close> when the text holds a
  space, which raises IndexError for a text of whitespace only.
\<close>

definition variations_of :: "string \<Rightarrow> py_error + string option list" where
  "variations_of anchor_text =
     (let firsts = [Some anchor_text, Some (lower anchor_text),
                    Some (replace '' financing'' [] anchor_text)]
      in if CHR '' '' \<in> set anchor_text
         then (case split_ws anchor_text of
                 [] \<Rightarrow> Inl IndexError
               | first_word # _ \<Rightarrow> Inr (firsts @ [Some first_word]))
         else Inr (firsts @ [None]))"

text \<open>
  The loop over the variations: the first one of at least four characters that the
  pattern finds is replaced at its leftmost match, and the loop ends.  The result is the
  new field content, or \<open>None\<close> when no variation was found.
\<close>

fun try_variations :: "template_expansion \<Rightarrow> string \<Rightarrow> string option list \<Rightarrow> string \<Rightarrow>
    py_error + string option" where
  "try_variations tmpl u [] field_content = Inr None"
| "try_variations tmpl u (None # vs) field_content = try_variations tmpl u vs field_content"
| \<open>try_variations tmpl u (Some variation # vs) field_content =
     (if variation = [] \<or> length variation < 4 then try_variations tmpl u vs field_content
      else case search_from variation [] field_content of
             None \<Rightarrow> try_variations tmpl u vs field_content
           | Some (before, matched, after) \<Rightarrow>
               (case expand_template tmpl
                       (''<a href="'' @ u @ ''">'' @ variation @ ''</a>'') matched of
                  Inl e \<Rightarrow> Inl e
                | Inr r \<Rightarrow> Inr (Some (before @ r @ after))))\<close>

definition max_links_per_field :: nat where
  "max_links_per_field = 2"

text \<open>
  The loop over the links for one field, from the counters \<open>field_links\<close> and
  \<open>links_injected\<close>; it returns the field content and both counters.
\<close>

fun inject_field :: "template_expansion \<Rightarrow> link list \<Rightarrow> string \<Rightarrow> nat \<Rightarrow> nat \<Rightarrow>
    py_error + (string \<times> nat \<times> nat)" where
  "inject_field tmpl [] field_content field_links links_injected =
     Inr (field_content, field_links, links_injected)"
| "inject_field tmpl (l # ls) field_content field_links links_injected =
     (if field_links \<ge> max_links_per_field then Inr (field_content, field_links, links_injected)
      else if links_injected \<ge> 5 then Inr (field_content, field_links, links_injected)
      else case link_text l of
             None \<Rightarrow> inject_field tmpl ls field_content field_links links_injected
           | Some anchor_text \<Rightarrow>
               if anchor_text = [] \<or> link_url l = []
               then inject_field tmpl ls field_content field_links links_injected
               else (case variations_of anchor_text of
                       Inl e \<Rightarrow> Inl e
                     | Inr variations \<Rightarrow>
                         (case try_variations tmpl (link_url l) variations field_content of
                            Inl e \<Rightarrow> Inl e
                          | Inr None \<Rightarrow>
                              inject_field tmpl ls field_content field_links links_injected
                          | Inr (Some fc) \<Rightarrow>
                              inject_field tmpl ls fc (field_links + 1) (links_injected + 1))))"

definition linkable_fields :: "string list" where
  "linkable_fields = [''main_content'', ''intro'', ''features'', ''how_it_works'']"

text \<open>
  The loop over the fields.  Besides the content and the counter \<open>links_injected\<close> it
  returns, for every field it worked on, the final \<open>field_links\<close> of that field.
\<close>

fun inject_fields :: "template_expansion \<Rightarrow> link list \<Rightarrow> string list \<Rightarrow> (string \<times> json) list \<Rightarrow>
    nat \<Rightarrow> py_error + ((string \<times> json) list \<times> (string \<times> nat) list \<times> nat)" where
  "inject_fields tmpl links [] content links_injected = Inr (content, [], links_injected)"
| "inject_fields tmpl links (field # fs) content links_injected =
     (case map_of content field of
        Some (JStr field_content) \<Rightarrow>
          (case inject_field tmpl links field_content 0 links_injected of
             Inl e \<Rightarrow> Inl e
           | Inr (fc, field_links, injected) \<Rightarrow>
               (case inject_fields tmpl links fs (dict_set field (JStr fc) content) injected of
                  Inl e \<Rightarrow> Inl e
                | Inr (c, counts, n) \<Rightarrow> Inr (c, (field, field_links) # counts, n)))
      | _ \<Rightarrow> inject_fields tmpl links fs content links_injected)"

text \<open>
  \<open>inject_links_into_content\<close>.  Adding the related-links block to a \<open>main_content\<close> that
  is not a string raises TypeError.
\<close>

definition inject_links_into_content ::
    "template_expansion \<Rightarrow> (string \<times> json) list \<Rightarrow> link list \<Rightarrow> py_error + (string \<times> json) list" where
  "inject_links_into_content tmpl content related_links =
     (if related_links = [] \<or> content = [] then Inr content
      else case inject_fields tmpl related_links linkable_fields content 0 of
             Inl e \<Rightarrow> Inl e
           | Inr (c, counts, n) \<Rightarrow>
               (case map_of c ''main_content'' of
                  None \<Rightarrow> Inr c
                | Some (JStr m) \<Rightarrow>
                    Inr (dict_set ''main_content''
                           (JStr (m @ [CHR 0x0A, CHR 0x0A] @
                                  generate_related_links_html related_links)) c)
                | Some _ \<Rightarrow> Inl TypeError))"


text \<open>A link whose URL and anchor text hold no backslash: its templates stand for themselves.\<close>

definition backslash_free :: "link \<Rightarrow> bool" where
  "backslash_free l = (CHR 0x5C \<notin> set (link_url l) \<and>
      (case link_text l of None \<Rightarrow> True | Some t \<Rightarrow> CHR 0x5C \<notin> set t))"


section \<open>Example data\<close>

text \<open>A registry with one complete hub page and one hub page that has no hero image.\<close>

definition example_hub :: node where
  "example_hub =
     (blank_node 1)\<lparr>primary_keyword := Some ''Excavator'', url_slug := Some ''excavator'',
        node_type := Some ''hub'', equipment_type_id := Some 1, page_category := Some ''hub'',
        status := Some ''ready_to_publish'',
        generated_content := JDict [(''intro'', JStr ''Excavators move earth.'')],
        word_count := Some 1000, content_version := Some 1,
        short_description := JStr ''Compare excavator financing, rental & buying options'',
        hero_image_url := Some ''https://cdn.example/excavator.webp''\<rparr>"

definition example_world :: world where
  "example_world =
     \<lparr>breaker = new_circuit_breaker,
      nodes = [example_hub, example_hub\<lparr>node_id := 2, hero_image_url := None\<rparr>],
      equipment_types = [\<lparr>et_id = 1, et_name = ''Excavator'', et_slug = ''excavator'',
                           hub_node_id = Some 1\<rparr>],
      next_id = 3, cms_calls = []\<rparr>"

definition example_env :: "http_outcome \<Rightarrow> publish_env" where
  "example_env h = \<lparr>webflow_configured = True, publishing_enabled = True,
                     site_url = ''https://equipflow.co'', http = h\<rparr>"

text \<open>The registry after three publish attempts that each got HTTP 500.\<close>

definition after_three_failures :: world where
  "after_three_failures =
     (let e = example_env (HttpResponse 500 ''down'' (Inl ''no json''));
          w1 = snd (publish_to_webflow e example_world 1);
          w2 = snd (publish_to_webflow e w1 1)
      in snd (publish_to_webflow e w2 1))"


text \<open>
  Candidate links, and a template expansion for replacements that hold no backslash
  (it is never consulted for them).
\<close>

definition no_escapes :: template_expansion where
  "no_escapes = (\<lambda>template matched. Inl ReError)"

definition digger_link :: link where
  \<open>digger_link = \<lparr>link_url = ''/equipment/excavator-financing/'',
                    link_text = Some ''mini digger loans'', link_type = ''sibling''\<rparr>\<close>

definition financing_link :: link where
  \<open>financing_link = \<lparr>link_url = ''/equipment/excavator-financing/'',
                       link_text = Some ''excavator financing'', link_type = ''sibling''\<rparr>\<close>

definition jcb_link :: link where
  \<open>jcb_link = \<lparr>link_url = ''/equipment/jcb/'', link_text = Some ''JCB'',
                 link_type = ''related''\<rparr>\<close>

text \<open>The related-links block for \<open>jcb_link\<close> alone.\<close>

definition jcb_block :: string where
  \<open>jcb_block = ''<div class="related-links"><h3>Related Resources</h3><ul>'' @
                ''<li><a href="/equipment/jcb/">'' @ [CHR 0x82] @ '' JCB</a></li>'' @
                ''</ul></div>''\<close>


text \<open>
  Two replies of the model: one of 808 words with four FAQ entries, one of eight words
  with three; and a generation run that has scraped two sources.
\<close>

definition long_text :: string where
  "long_text = concat (replicate 800 ''a '')"

definition faq_item :: json where
  "faq_item = JDict [(''q'', JStr ''a''), (''a'', JStr ''a'')]"

definition long_reply :: "(string \<times> json) list" where
  "long_reply = [(''intro'', JStr long_text),
                 (''faq'', JList [faq_item, faq_item, faq_item, faq_item])]"


definition example_sources :: "string list" where
  "example_sources = [''https://a.example/x'', ''https://b.example/y'']"

definition example_generation :: "json \<Rightarrow> generation_env" where
  "example_generation r =
     \<lparr>sources = example_sources, lsi_keywords = [], budget_ok = True, reply = Inr r,
      gen_site_url = ''https://equipflow.co'', today = ''2025-01-01''\<rparr>"

definition excavator_type :: equipment_type where
  "excavator_type = \<lparr>et_id = 1, et_name = ''Excavator'', et_slug = ''excavator'',
                      hub_node_id = Some 1\<rparr>"

text \<open>
  An empty registry and the requests made of the decision engine below: a financing page
  for Texas whose modifier is the empty string, as the classifier passes it on when the
  model answers \<open>"modifier": ""\<close>; the hub keyword \<open>excavator\<close>; and a hub keyword whose
  equipment type is \<open>excavator financing\<close>.
\<close>

definition empty_registry :: world where
  "empty_registry = \<lparr>breaker = new_circuit_breaker, nodes = [], equipment_types = [],
                       next_id = 1, cms_calls = []\<rparr>"

definition texas_keyword :: ClassifiedKeyword where
  "texas_keyword =
     \<lparr>original_keyword = ''excavator financing texas'', ck_equipment_type = ''excavator'',
      ck_geo = Some ''texas'', ck_modifier = Some [], ck_brand = None,
      ck_spoke_type = ''financing'', ck_page_category = ''spoke'', commercial = 8,
      priority_score = 8\<rparr>"

text \<open>The registry after the Texas request has been processed once.\<close>

definition registered_once :: "table_constraints \<Rightarrow> world" where
  "registered_once db = snd (decide_and_queue db empty_registry texas_keyword 100 10)"

definition excavator_keyword :: ClassifiedKeyword where
  "excavator_keyword =
     \<lparr>original_keyword = ''excavator'', ck_equipment_type = ''excavator'', ck_geo = None,
      ck_modifier = None, ck_brand = None, ck_spoke_type = ''hub'', ck_page_category = ''hub'',
      commercial = 7, priority_score = 0\<rparr>"

definition financing_hub_keyword :: ClassifiedKeyword where
  "financing_hub_keyword =
     \<lparr>original_keyword = ''excavator financing'', ck_equipment_type = ''excavator financing'',
      ck_geo = None, ck_modifier = None, ck_brand = None, ck_spoke_type = ''hub'',
      ck_page_category = ''hub'', commercial = 7, priority_score = 0\<rparr>"

text \<open>The registry after the hub keyword \<open>excavator\<close> has been processed.\<close>

definition excavator_registry :: world where
  "excavator_registry =
     snd (decide_and_queue unique_url_slug empty_registry excavator_keyword 0 0)"


text \<open>
  A registry that the program makes alone: the hub keyword \<open>excavator\<close> processed on the
  empty registry of a database without constraints.  Row 1 is the equipment type, row 2
  its hub; no insert of the program sets \<open>word_count\<close> or \<open>content_version\<close>.
\<close>

definition hub_registry :: world where
  "hub_registry = snd (decide_and_queue no_constraints empty_registry excavator_keyword 0 0)"

definition made_hub :: node where
  "made_hub =
     (blank_node 2)\<lparr>primary_keyword := Some ''Excavator'', url_slug := Some ''excavator'',
        normalized_decision_key := Some ''excavator'', node_type := Some ''hub'',
        equipment_type_id := Some 1, page_category := Some ''hub'',
        status := Some ''discovery'', commercial_score := Some 8\<rparr>"

definition made_type :: equipment_type where
  "made_type = \<lparr>et_id = 1, et_name = ''Excavator'', et_slug = ''excavator'',
                 hub_node_id = Some 2\<rparr>"

text \<open>The first write of content to the hub, with 1000 words.\<close>

definition written_registry :: world where
  "written_registry =
     snd (update_content_safe hub_registry 2 (JDict [(''intro'', JStr ''first'')]) 1000)"

text \<open>A first generation run on the hub, with a reply of 1608 words.\<close>

definition longer_text :: string where
  "longer_text = concat (replicate 1600 ''a '')"

definition longer_reply :: "(string \<times> json) list" where
  "longer_reply = [(''intro'', JStr longer_text),
                   (''faq'', JList [faq_item, faq_item, faq_item, faq_item])]"

definition generated_registry :: world where
  "generated_registry =
     snd (generate_content_for_node (example_generation (JDict longer_reply)) hub_registry 2)"


section \<open>Verified properties\<close>

lemmas example_defs = example_world_def example_hub_def example_env_def blank_node_def
  new_circuit_breaker_def CIRCUIT_BREAKER_THRESHOLD_def

lemmas publish_defs = publish_to_webflow_def send_to_cms_def publish_validation_def
  get_node_def update_node_def can_proceed_def record_failure_def record_success_def
  response_item_id_def Let_def

subsection \<open>Circuit breaker\<close>

lemma record_failure_open:
  "threshold cb \<le> failures cb + 1 \<Longrightarrow> is_open (record_failure cb)"
  by (simp add: record_failure_def Let_def)

lemma record_failure_fields:
  "failures (record_failure cb) = failures cb + 1"
  "threshold (record_failure cb) = threshold cb"
  by (simp_all add: record_failure_def Let_def)

text \<open>
  Claim C5.  From a breaker with the default threshold and a failure count that is not
  negative, three recorded failures in a row leave the breaker open.  While the breaker
  is open, every call of \<open>publish_to_webflow\<close> fails with an error and returns the state
  as it was: no request is sent to the CMS, and the breaker stays open; when Webflow is
  configured and the kill switch is off, the error is \<open>Circuit breaker open\<close>.  A recorded
  success sets the failure counter to 0 and lets calls proceed, and so does a reset.
\<close>

theorem circuit_breaker_trips_and_blocks:
  "(threshold cb = CIRCUIT_BREAKER_THRESHOLD \<and> 0 \<le> failures cb \<longrightarrow>
      is_open (record_failure (record_failure (record_failure cb))))
   \<and> (is_open (breaker w) \<longrightarrow>
        \<not> success (fst (publish_to_webflow env w i))
        \<and> error (fst (publish_to_webflow env w i)) \<in>
            {Some ''Webflow not configured'', Some ''Kill switch active'',
             Some ''Circuit breaker open''}
        \<and> snd (publish_to_webflow env w i) = w)
   \<and> (is_open (breaker w) \<and> webflow_configured env \<and> publishing_enabled env \<longrightarrow>
        error (fst (publish_to_webflow env w i)) = Some ''Circuit breaker open'')
   \<and> failures (record_success cb) = 0
   \<and> can_proceed (record_success cb)
   \<and> can_proceed (reset cb)"
proof -
  have a: "threshold cb = CIRCUIT_BREAKER_THRESHOLD \<and> 0 \<le> failures cb \<longrightarrow>
      is_open (record_failure (record_failure (record_failure cb)))"
    by (auto intro!: record_failure_open
          simp: record_failure_fields CIRCUIT_BREAKER_THRESHOLD_def)
  have b: "is_open (breaker w) \<longrightarrow>
        \<not> success (fst (publish_to_webflow env w i))
        \<and> error (fst (publish_to_webflow env w i)) \<in>
            {Some ''Webflow not configured'', Some ''Kill switch active'',
             Some ''Circuit breaker open''}
        \<and> snd (publish_to_webflow env w i) = w"
    by (simp add: publish_to_webflow_def can_proceed_def Let_def)
  have c: "is_open (breaker w) \<and> webflow_configured env \<and> publishing_enabled env \<longrightarrow>
        error (fst (publish_to_webflow env w i)) = Some ''Circuit breaker open''"
    by (simp add: publish_to_webflow_def can_proceed_def Let_def)
  have d: "failures (record_success cb) = 0 \<and> can_proceed (record_success cb)
        \<and> can_proceed (reset cb)"
    by (simp add: record_success_def reset_def can_proceed_def)
  from a b c d show ?thesis by blast
qed

lemma after_three_failures_state:
  "breaker after_three_failures = \<lparr>threshold = 3, failures = 3, is_open = True\<rparr>"
  "length (cms_calls after_three_failures) = 3"
  "nodes after_three_failures = nodes example_world"
  by (simp_all add: after_three_failures_def example_defs publish_defs)

theorem circuit_breaker_trips_and_blocks_witness:
  "threshold new_circuit_breaker = CIRCUIT_BREAKER_THRESHOLD
   \<and> 0 \<le> failures new_circuit_breaker
   \<and> is_open (record_failure (record_failure (record_failure new_circuit_breaker)))
   \<and> is_open (breaker after_three_failures)
   \<and> webflow_configured (example_env (HttpResponse 200 ''ok'' (Inr [(''id'', JStr ''item-1'')])))
   \<and> publishing_enabled (example_env (HttpResponse 200 ''ok'' (Inr [(''id'', JStr ''item-1'')])))
   \<and> error (fst (publish_to_webflow
          (example_env (HttpResponse 200 ''ok'' (Inr [(''id'', JStr ''item-1'')])))
          after_three_failures 1)) = Some ''Circuit breaker open''
   \<and> snd (publish_to_webflow
          (example_env (HttpResponse 200 ''ok'' (Inr [(''id'', JStr ''item-1'')])))
          after_three_failures 1) = after_three_failures
   \<and> length (cms_calls after_three_failures) = 3
   \<and> failures (record_success new_circuit_breaker) = 0"
  using circuit_breaker_trips_and_blocks [of new_circuit_breaker after_three_failures
      "example_env (HttpResponse 200 ''ok'' (Inr [(''id'', JStr ''item-1'')]))" 1]
  by (simp add: after_three_failures_state)
     (simp add: example_env_def new_circuit_breaker_def)


subsection \<open>Publish validation\<close>

text \<open>
  Claim C9.  For a node that lacks generated content, a hero image, a short description,
  a page category, or (being a spoke) a spoke type, \<open>publish_to_webflow\<close> does not succeed
  and returns the state as it was: no request reaches the CMS and no row changes.  When
  the call gets as far as validation (Webflow configured, kill switch off, breaker
  closed), the error is the validation failure and its list names exactly the fields
  that are missing.
\<close>

theorem publish_validation_blocks:
  assumes found: "get_node w i = Some n"
    and missing: "\<not> truthy (generated_content n) \<or> \<not> truthy_str (hero_image_url n)
       \<or> \<not> truthy (short_description n) \<or> \<not> truthy_str (page_category n)
       \<or> (page_category n = Some ''spoke'' \<and> \<not> truthy_str (spoke_type n))"
  shows "\<not> success (fst (publish_to_webflow env w i))
     \<and> snd (publish_to_webflow env w i) = w
     \<and> (webflow_configured env \<and> publishing_enabled env \<and> \<not> is_open (breaker w) \<longrightarrow>
          (let errs = validation_errors (fst (publish_to_webflow env w i)) in
             error (fst (publish_to_webflow env w i))
               = Some (''Publish validation failed: '' @ join '', '' errs)
           \<and> (''No generated content'' \<in> set errs) = (\<not> truthy (generated_content n))
           \<and> (''No hero image'' \<in> set errs) = (\<not> truthy_str (hero_image_url n))
           \<and> (''No short description'' \<in> set errs) = (\<not> truthy (short_description n))
           \<and> (''Missing page_category'' \<in> set errs) = (\<not> truthy_str (page_category n))
           \<and> (''Missing spoke_type'' \<in> set errs)
               = (page_category n = Some ''spoke'' \<and> \<not> truthy_str (spoke_type n))))"
proof -
  from missing have ne: "publish_validation n \<noteq> []"
    by (auto simp: publish_validation_def)
  have stop: "\<not> success (fst (publish_to_webflow env w i))
      \<and> snd (publish_to_webflow env w i) = w"
    using found ne by (simp add: publish_to_webflow_def Let_def)
  have gate: "webflow_configured env \<and> publishing_enabled env \<and> \<not> is_open (breaker w) \<Longrightarrow>
     fst (publish_to_webflow env w i) =
       \<lparr>success = False, res_node_id = i,
        error = Some (''Publish validation failed: '' @ join '', '' (publish_validation n)),
        validation_errors = publish_validation n, res_item_id = None, url = None\<rparr>"
    using found ne by (simp add: publish_to_webflow_def Let_def can_proceed_def)
  have lists:
    "(''No generated content'' \<in> set (publish_validation n)) = (\<not> truthy (generated_content n))"
    "(''No hero image'' \<in> set (publish_validation n)) = (\<not> truthy_str (hero_image_url n))"
    "(''No short description'' \<in> set (publish_validation n))
       = (\<not> truthy (short_description n))"
    "(''Missing page_category'' \<in> set (publish_validation n))
       = (\<not> truthy_str (page_category n))"
    "(''Missing spoke_type'' \<in> set (publish_validation n))
       = (page_category n = Some ''spoke'' \<and> \<not> truthy_str (spoke_type n))"
    by (simp_all add: publish_validation_def)
  show ?thesis using stop gate lists by (simp add: Let_def)
qed

theorem publish_validation_blocks_witness:
  "get_node example_world 2 = Some (example_hub\<lparr>node_id := 2, hero_image_url := None\<rparr>)
   \<and> \<not> truthy_str (hero_image_url (example_hub\<lparr>node_id := 2, hero_image_url := None\<rparr>))
   \<and> webflow_configured (example_env (HttpResponse 200 ''ok'' (Inr [(''id'', JStr ''item-2'')])))
   \<and> publishing_enabled (example_env (HttpResponse 200 ''ok'' (Inr [(''id'', JStr ''item-2'')])))
   \<and> \<not> is_open (breaker example_world)
   \<and> \<not> success (fst (publish_to_webflow
          (example_env (HttpResponse 200 ''ok'' (Inr [(''id'', JStr ''item-2'')])))
          example_world 2))
   \<and> validation_errors (fst (publish_to_webflow
          (example_env (HttpResponse 200 ''ok'' (Inr [(''id'', JStr ''item-2'')])))
          example_world 2)) = [''No hero image'']
   \<and> error (fst (publish_to_webflow
          (example_env (HttpResponse 200 ''ok'' (Inr [(''id'', JStr ''item-2'')])))
          example_world 2)) = Some ''Publish validation failed: No hero image''
   \<and> snd (publish_to_webflow
          (example_env (HttpResponse 200 ''ok'' (Inr [(''id'', JStr ''item-2'')])))
          example_world 2) = example_world"
proof -
  have found: "get_node example_world 2 = Some (example_hub\<lparr>node_id := 2, hero_image_url := None\<rparr>)"
    by (simp add: get_node_def example_defs)
  have missing: "\<not> truthy_str (hero_image_url (example_hub\<lparr>node_id := 2, hero_image_url := None\<rparr>))"
    by simp
  have errs: "validation_errors (fst (publish_to_webflow
          (example_env (HttpResponse 200 ''ok'' (Inr [(''id'', JStr ''item-2'')])))
          example_world 2)) = [''No hero image'']"
    by (simp add: example_defs publish_defs)
  from publish_validation_blocks [OF found, of
      "example_env (HttpResponse 200 ''ok'' (Inr [(''id'', JStr ''item-2'')]))"] missing
  show ?thesis
    using found errs by (simp add: Let_def) (simp add: example_defs)
qed


subsection \<open>Content-version guard\<close>

lemma round_to_53_small: "p < 2 ^ 53 \<Longrightarrow> round_to_53 p = p"
  using floorlog_leI [of p 2 53] by (simp add: round_to_53_def Let_def)

lemma round_to_53_error:
  assumes "p < 2 ^ 102"
  shows "\<bar>int (round_to_53 p) - int p\<bar> \<le> 2 ^ 48"
proof (cases "floorlog 2 p \<le> 53")
  case True
  then show ?thesis by (simp add: round_to_53_def Let_def)
next
  case False
  define sh where "sh = floorlog 2 p - 53"
  have b: "floorlog 2 p \<le> 102" using assms by (intro floorlog_leI) auto
  have sh: "1 \<le> sh" "sh \<le> 49" using False b by (auto simp: sh_def)
  define half :: nat where "half = 2 ^ (sh - 1)"
  have two: "(2::nat) ^ sh = 2 * half"
    using sh by (simp add: half_def power_eq_if)
  have half_le: "half \<le> 2 ^ 48"
    unfolding half_def using sh by (intro power_increasing) auto
  define q where "q = p div 2 ^ sh"
  define r where "r = p mod 2 ^ sh"
  have "p = q * 2 ^ sh + r" and "r < 2 ^ sh"
    using div_mult_mod_eq [of p "2 ^ sh"] by (simp_all add: q_def r_def)
  then have p: "p = q * (2 * half) + r" and r: "r < 2 * half"
    by (simp_all only: two)
  have "round_to_53 p =
      (if p mod 2 ^ sh < 2 ^ (sh - 1) then p div 2 ^ sh
       else if 2 ^ (sh - 1) < p mod 2 ^ sh then p div 2 ^ sh + 1
       else if even (p div 2 ^ sh) then p div 2 ^ sh else p div 2 ^ sh + 1) * 2 ^ sh"
    unfolding round_to_53_def Let_def sh_def [symmetric] using False by (simp only: if_False)
  then have R: "round_to_53 p = (if r < half then q else if half < r then q + 1
                  else if even q then q else q + 1) * (2 * half)"
    unfolding q_def r_def by (simp only: half_def [symmetric] two)
  have pi: "int p = int q * (2 * int half) + int r" by (subst p) simp
  have "\<bar>int (round_to_53 p) - int p\<bar> \<le> int half"
    unfolding R pi using r by (auto simp: algebra_simps)
  moreover from half_le have "int half \<le> int (2 ^ 48)" by (simp only: of_nat_le_iff)
  ultimately show ?thesis by simp
qed

lemma round_to_53_exact:
  assumes j: "0 < j" and small: "9 * j * 2 ^ 53 + 2 * j < 2 ^ 102"
  shows "round_to_53 (9 * j * 2 ^ 53 + 2 * j) = 9 * j * 2 ^ 53"
proof -
  define p where "p = 9 * j * 2 ^ 53 + 2 * j"
  define b where "b = floorlog 2 p"
  have ppos: "0 < p" using j by (simp add: p_def)
  have bnd: "p < 2 ^ b" using floorlog_bounds [of p 2] ppos by (simp add: b_def)
  have b102: "b \<le> 102" unfolding b_def using small by (intro floorlog_leI) (auto simp: p_def)
  have "(2::nat) ^ 56 \<le> p" using j by (simp add: p_def)
  with bnd have "(2::nat) ^ 56 < 2 ^ b" by linarith
  then have b56: "56 < b" by (simp only: power_strict_increasing_iff) 
  define sh where "sh = b - 53"
  have sh: "4 \<le> sh" "sh \<le> 49" "b = sh + 53" using b56 b102 by (auto simp: sh_def)
  define half :: nat where "half = 2 ^ (sh - 1)"
  have two: "(2::nat) ^ sh = 2 * half" using sh by (simp add: half_def power_eq_if)
  have split53: "(2::nat) ^ 53 = 2 ^ (53 - sh) * 2 ^ sh"
    using sh by (simp add: power_add [symmetric])
  have "9 * j * 2 ^ 53 < (2::nat) ^ sh * 2 ^ 53"
    using bnd by (simp add: p_def sh power_add)
  then have nine: "9 * j < 2 ^ sh" by simp
  then have jhalf: "2 * j < half" using two by linarith
  have pform: "p = 2 * j + (9 * j * 2 ^ (53 - sh)) * 2 ^ sh"
    unfolding p_def by (subst split53) (simp add: algebra_simps)
  have jsh: "2 * j < 2 ^ sh" using jhalf two by linarith
  have "p mod 2 ^ sh = (2 * j) mod 2 ^ sh"
    by (subst pform) (simp only: mod_mult_self1)
  with jsh have r: "p mod 2 ^ sh = 2 * j" by simp
  have "p div 2 ^ sh = 9 * j * 2 ^ (53 - sh) + (2 * j) div 2 ^ sh"
    by (subst pform) (simp only: div_mult_self1 power_not_zero zero_neq_numeral not_False_eq_True)
  with jsh have q: "p div 2 ^ sh = 9 * j * 2 ^ (53 - sh)" by simp
  have nb: "\<not> b \<le> 53" using b56 by simp
  have rlt: "p mod 2 ^ sh < 2 ^ (sh - 1)" using r jhalf by (simp only: half_def)
  have "round_to_53 p = (p div 2 ^ sh) * 2 ^ sh"
    unfolding round_to_53_def Let_def b_def [symmetric] sh_def [symmetric]
    using nb rlt by (simp only: if_False if_True)
  then have "round_to_53 p = 9 * j * 2 ^ (53 - sh) * 2 ^ sh"
    by (simp only: q)
  also have "\<dots> = 9 * j * (2 ^ (53 - sh) * 2 ^ sh)" by (simp only: mult.assoc)
  also have "\<dots> = 9 * j * 2 ^ 53" by (simp only: split53 [symmetric])
  finally show ?thesis by (simp add: p_def)
qed

lemma ten_times: "10 * DOUBLE_0_9 = 9 * 2 ^ 53 + 2"
  by (simp add: DOUBLE_0_9_def)

lemma guard_exact:
  assumes W: "W < 2 ^ 49"
  shows "(int (round_to_53 (W * DOUBLE_0_9)) \<le> N * 2 ^ 53) = (9 * int W \<le> 10 * N)"
proof -
  define P where "P = W * DOUBLE_0_9"
  define R where "R = int (round_to_53 P)"
  have P10: "10 * int P = 9 * int W * 2 ^ 53 + 2 * int W"
    using ten_times by (simp add: P_def algebra_simps)
  have Pb: "P < 2 ^ 102"
  proof -
    have "W * DOUBLE_0_9 < 2 ^ 49 * 2 ^ 53"
      using W by (intro mult_strict_mono) (auto simp: DOUBLE_0_9_def)
    then show ?thesis by (simp add: P_def)
  qed
  have err: "\<bar>R - int P\<bar> \<le> 2 ^ 48" unfolding R_def by (rule round_to_53_error [OF Pb])
  have Wi: "int W < 2 ^ 49" using W by (metis of_nat_less_iff of_nat_numeral of_nat_power)
  consider "9 * int W + 1 \<le> 10 * N" | "10 * N + 1 \<le> 9 * int W" | "10 * N = 9 * int W"
    by linarith
  then have "(R \<le> N * 2 ^ 53) = (9 * int W \<le> 10 * N)"
  proof cases
    case 1
    have "10 * (N * 2 ^ 53) \<ge> (9 * int W + 1) * 2 ^ 53" using 1 by simp
    with P10 err Wi have "10 * R \<le> 10 * (N * 2 ^ 53)" by (simp add: algebra_simps) 
    with 1 show ?thesis by simp
  next
    case 2
    have "10 * (N * 2 ^ 53) \<le> (9 * int W - 1) * 2 ^ 53" using 2 by simp
    with P10 err Wi have "10 * (N * 2 ^ 53) < 10 * R" by (simp add: algebra_simps)
    with 2 show ?thesis by simp
  next
    case 3
    then have "W mod 10 = 0" by presburger
    then have "10 dvd W" by (simp add: dvd_eq_mod_eq_0)
    then obtain j where j: "W = 10 * j" by (elim dvdE)
    with 3 have N: "N = 9 * int j" by simp
    show ?thesis
    proof (cases "j = 0")
      case True
      with j N show ?thesis by (simp add: R_def P_def round_to_53_small)
    next
      case False
      have Pj: "P = 9 * j * 2 ^ 53 + 2 * j"
        using ten_times by (simp add: P_def j algebra_simps)
      have "round_to_53 P = 9 * j * 2 ^ 53"
        unfolding Pj using False Pb by (intro round_to_53_exact) (auto simp: Pj)
      then show ?thesis using 3 N by (simp add: R_def)
    qed
  qed
  then show ?thesis by (simp add: R_def P_def)
qed


lemma get_node_update_node:
  assumes "\<And>n. node_id (f n) = node_id n"
  shows "get_node (update_node w i f) j = map_option (\<lambda>n. if node_id n = i then f n else n) (get_node w j)"
proof -
  have "find (\<lambda>n. node_id n = j) (map (\<lambda>n. if node_id n = i then f n else n) xs)
        = map_option (\<lambda>n. if node_id n = i then f n else n) (find (\<lambda>n. node_id n = j) xs)" for xs
    by (induction xs) (auto simp: assms)
  then show ?thesis by (simp add: get_node_def update_node_def)
qed

lemma get_node_id: "get_node w i = Some n \<Longrightarrow> node_id n = i"
  by (auto simp: get_node_def dest: find_Some_iff [THEN iffD1])

lemma ge_times_0_9_exact:
  assumes "0 \<le> W" "W < 2 ^ 49"
  shows "ge_times_0_9 N W = Some (9 * W \<le> 10 * N)"
proof -
  define k where "k = nat W"
  have k: "W = int k" "k < 2 ^ 49" using assms by (auto simp: k_def nat_less_iff)
  have small: "round_to_53 k = k" using k by (intro round_to_53_small) auto
  have big: "\<not> (2::nat) ^ 1024 \<le> k" using k(2) by (simp add: not_le)
  show ?thesis
  proof (cases "k = 0")
    case True
    then show ?thesis using k by (simp add: ge_times_0_9_def Let_def round_to_53_small)
  next
    case False
    then have "sgn W = 1" using k by simp
    then show ?thesis
      using guard_exact [OF k(2), of N] big
      by (simp add: ge_times_0_9_def Let_def k(1) small)
  qed
qed

text \<open>
  What the guard decides.  For a node whose stored word count is \<open>W\<close> (in the range where
  the binary64 product decides as the exact one does, which holds every count of words of
  a document that can exist), an update with the new count \<open>N\<close> is applied if and only
  if \<open>N \<ge> 0.9 * W\<close>.  A rejected update leaves the registry as it is.  An accepted one
  replaces the content and the count; the version becomes \<open>V + 1\<close> when the stored
  version is \<open>V\<close>, and when the stored version is NULL the sum \<open>current_version + 1\<close>
  raises, the \<open>except\<close> clause writes content and count alone, and the version stays
  NULL.  A NULL word count (the first write) goes the same way.
\<close>

lemma update_content_safe_rejected:
  assumes "get_node w i = Some n" "word_count n = Some W" "0 \<le> W" "W < 2 ^ 49"
    "(of_int wc :: rat) < 9 / 10 * of_int W"
  shows "update_content_safe w i c wc = (False, w)"
proof -
  have "(9 / 10 * of_int W \<le> (of_int wc :: rat)) = ((of_int (9 * W) :: rat) \<le> of_int (10 * wc))"
    by (simp add: field_simps)
  then have "(9 / 10 * of_int W \<le> (of_int wc :: rat)) = (9 * W \<le> 10 * wc)"
    by (simp only: of_int_le_iff)
  with assms(5) have "\<not> 9 * W \<le> 10 * wc" by simp
  then show ?thesis
    using assms(1,2)
    by (simp add: update_content_safe_def ENABLE_CONTENT_VERSIONING_def Let_def
          ge_times_0_9_exact [OF assms(3,4)])
qed

lemma update_content_safe_first_write:
  assumes "get_node w i = Some n" "word_count n = None"
  shows "update_content_safe w i c wc = (True, write_content w i c wc)"
  using assms by (simp add: update_content_safe_def ENABLE_CONTENT_VERSIONING_def Let_def)

lemma get_node_write_content:
  "get_node w i = Some n \<Longrightarrow>
   get_node (write_content w i c wc) i = Some (n\<lparr>generated_content := c, word_count := Some wc\<rparr>)"
  using get_node_id [of w i n] by (simp add: write_content_def get_node_update_node)

lemma update_content_safe_accepted:
  assumes found: "get_node w i = Some n"
    and wc: "word_count n = Some W" and range: "0 \<le> W" "W < 2 ^ 49"
    and accepted: "9 / 10 * of_int W \<le> (of_int N :: rat)"
  shows "update_content_safe w i c N =
           (True, case content_version n of
                    None \<Rightarrow> write_content w i c N
                  | Some V \<Rightarrow>
                      update_node w i (\<lambda>n. n\<lparr>generated_content := c, word_count := Some N,
                                              content_version := Some (V + 1)\<rparr>))"
    and "get_node (snd (update_content_safe w i c N)) i =
           Some (n\<lparr>generated_content := c, word_count := Some N,
                   content_version := map_option (\<lambda>V. V + 1) (content_version n)\<rparr>)"
proof -
  have "(9 / 10 * of_int W \<le> (of_int N :: rat)) = ((of_int (9 * W) :: rat) \<le> of_int (10 * N))"
    by (simp add: field_simps)
  then have "(9 / 10 * of_int W \<le> (of_int N :: rat)) = (9 * W \<le> 10 * N)"
    by (simp only: of_int_le_iff)
  with accepted have le: "9 * W \<le> 10 * N" by simp
  have nid: "node_id n = i" by (rule get_node_id [OF found])
  show "update_content_safe w i c N =
           (True, case content_version n of
                    None \<Rightarrow> write_content w i c N
                  | Some V \<Rightarrow>
                      update_node w i (\<lambda>n. n\<lparr>generated_content := c, word_count := Some N,
                                              content_version := Some (V + 1)\<rparr>))"
    using found wc le
    by (simp add: update_content_safe_def ENABLE_CONTENT_VERSIONING_def Let_def
          ge_times_0_9_exact [OF range] split: option.splits)
  then show "get_node (snd (update_content_safe w i c N)) i =
           Some (n\<lparr>generated_content := c, word_count := Some N,
                   content_version := map_option (\<lambda>V. V + 1) (content_version n)\<rparr>)"
    using found nid
    by (cases "content_version n") (simp_all add: write_content_def get_node_update_node)
qed

text \<open>The hub that the decision engine makes has neither a word count nor a version.\<close>

lemma hub_row: "get_node hub_registry 2 = Some made_hub"
  by code_simp

lemma hub_types: "equipment_types hub_registry = [made_type]"
  by code_simp

text \<open>
  Claim C2 (not met by the code): on acceptance \<open>content_version\<close> increments by exactly 1.
  The hub of \<open>hub_registry\<close> is as the program inserts it, with \<open>word_count\<close> and
  \<open>content_version\<close> NULL.  Its first write (1000 words) is applied and leaves the version
  NULL.  The next update, with 920 words, is accepted (\<open>920 \<ge> 0.9 * 1000\<close>), and content
  and word count are replaced, but the version is still NULL: \<open>current_version + 1\<close>
  raises on the NULL version, and the fallback of the \<open>except\<close> clause writes no version.
\<close>

theorem accepted_update_leaves_version_null:
  "map_option (\<lambda>n. (word_count n, content_version n)) (get_node hub_registry 2)
     = Some (None, None)
   \<and> fst (update_content_safe hub_registry 2 (JDict [(''intro'', JStr ''first'')]) 1000)
   \<and> map_option (\<lambda>n. (generated_content n, word_count n, content_version n))
         (get_node written_registry 2)
     = Some (JDict [(''intro'', JStr ''first'')], Some 1000, None)
   \<and> fst (update_content_safe written_registry 2 (JDict [(''intro'', JStr ''second'')]) 920)
   \<and> map_option (\<lambda>n. (generated_content n, word_count n, content_version n))
         (get_node (snd (update_content_safe written_registry 2
                           (JDict [(''intro'', JStr ''second'')]) 920)) 2)
     = Some (JDict [(''intro'', JStr ''second'')], Some 920, None)"
proof -
  have made: "map_option (\<lambda>n. (word_count n, content_version n)) (get_node hub_registry 2)
                = Some (None, None)"
    by (simp add: hub_row made_hub_def blank_node_def)
  have nulls: "word_count made_hub = None" by (simp add: made_hub_def blank_node_def)
  note first = update_content_safe_first_write [OF hub_row nulls]
  have written: "written_registry = write_content hub_registry 2 (JDict [(''intro'', JStr ''first'')]) 1000"
    by (simp add: written_registry_def first)
  have row: "get_node written_registry 2
      = Some (made_hub\<lparr>generated_content := JDict [(''intro'', JStr ''first'')],
                       word_count := Some 1000\<rparr>)"
    unfolding written by (rule get_node_write_content [OF hub_row])
  have range: "(0::int) \<le> 1000" "(1000::int) < 2 ^ 49" by simp_all
  have above: "9 / 10 * of_int 1000 \<le> (of_int 920 :: rat)" by simp
  have stored: "word_count (made_hub\<lparr>generated_content := JDict [(''intro'', JStr ''first'')],
                       word_count := Some 1000\<rparr>) = Some 1000" by simp
  note second = update_content_safe_accepted [OF row stored range above]
  have accepted: "fst (update_content_safe written_registry 2
                          (JDict [(''intro'', JStr ''second'')]) 920)"
    by (simp only: second(1) fst_conv)
  have "fst (update_content_safe hub_registry 2 (JDict [(''intro'', JStr ''first'')]) 1000)"
    by (simp only: first fst_conv)
  with made accepted show ?thesis
    by (simp add: row second(2) made_hub_def blank_node_def)
qed


subsection \<open>Brand sanitization\<close>

text \<open>The \<open>title()\<close> forms of the replacement table, computed once.\<close>

lemma titled_replacements:
  "map (\<lambda>(old, new). (title old, title new)) replacements =
     [(''Our Lending'', ''Lending Partners In Our Network''),
      (''Our Financing'', ''Financing Options Through Our Partners''),
      (''We Offer Loans'', ''Our Lending Partners Offer''),
      (''We Fund'', ''Our Lending Partners Fund''),
      (''Our Rates'', ''Rates From Our Lending Partners''),
      (''We Approve'', ''Our Lending Partners Approve''),
      (''We Lend'', ''Our Lending Partners Provide''),
      (''Our Loan Products'', ''Loan Products From Our Partners''),
      (''We Provide Financing'', ''Our Partners Provide Financing''),
      (''Our Underwriting'', ''Underwriting By Our Lending Partners''),
      (''We Finance'', ''Our Lending Partners Finance''),
      (''Our Loans'', ''Loans From Our Lending Partners''),
      (''Get Approved By Us'', ''Get Approved By Our Lending Partners'')]"
  by code_simp

lemma sanitize_brand_content_passes:
  "sanitize_brand_content text =
     (if text = [] then text
      else fold (\<lambda>(old, new) t. replace old new t)
         [(''our lending'', ''lending partners in our network''), (''Our Lending'', ''Lending Partners In Our Network''),
          (''our financing'', ''financing options through our partners''), (''Our Financing'', ''Financing Options Through Our Partners''),
          (''we offer loans'', ''our lending partners offer''), (''We Offer Loans'', ''Our Lending Partners Offer''),
          (''we fund'', ''our lending partners fund''), (''We Fund'', ''Our Lending Partners Fund''),
          (''our rates'', ''rates from our lending partners''), (''Our Rates'', ''Rates From Our Lending Partners''),
          (''we approve'', ''our lending partners approve''), (''We Approve'', ''Our Lending Partners Approve''),
          (''we lend'', ''our lending partners provide''), (''We Lend'', ''Our Lending Partners Provide''),
          (''our loan products'', ''loan products from our partners''), (''Our Loan Products'', ''Loan Products From Our Partners''),
          (''we provide financing'', ''our partners provide financing''), (''We Provide Financing'', ''Our Partners Provide Financing''),
          (''our underwriting'', ''underwriting by our lending partners''), (''Our Underwriting'', ''Underwriting By Our Lending Partners''),
          (''we finance'', ''our lending partners finance''), (''We Finance'', ''Our Lending Partners Finance''),
          (''our loans'', ''loans from our lending partners''), (''Our Loans'', ''Loans From Our Lending Partners''),
          (''get approved by us'', ''get approved by our lending partners''), (''Get Approved By Us'', ''Get Approved By Our Lending Partners'')]
         text)"
  using titled_replacements by (simp add: sanitize_brand_content_def replacements_def)

text \<open>
  Claim C8 (not met by the code).  The sanitizer replaces \<open>we fund\<close> by a text that itself
  holds the banned phrase \<open>our lending\<close>, so the checker rejects the sanitized output; it
  replaces only the lower-case and the \<open>title()\<close> spelling of a phrase, so \<open>OUR LENDING\<close>
  passes through unchanged and is rejected by the checker, which compares in lower case;
  and the substitute of the \<open>title()\<close> spelling is the \<open>title()\<close> of the substitute, every
  word capitalised.
\<close>

theorem sanitize_brand_content_leaves_banned_phrases:
  "sanitize_brand_content ''we fund equipment'' = ''our lending partners fund equipment''
   \<and> check_brand_compliance (sanitize_brand_content ''we fund equipment'')
        = (False, [''our lending''])
   \<and> sanitize_brand_content ''OUR LENDING'' = ''OUR LENDING''
   \<and> check_brand_compliance (sanitize_brand_content ''OUR LENDING'')
        = (False, [''our lending''])
   \<and> sanitize_brand_content ''Our Lending'' = ''Lending Partners In Our Network''"
proof -
  have a: "sanitize_brand_content ''we fund equipment'' = ''our lending partners fund equipment''"
    unfolding sanitize_brand_content_passes by code_simp
  have b: "sanitize_brand_content ''OUR LENDING'' = ''OUR LENDING''"
    unfolding sanitize_brand_content_passes by code_simp
  have c: "sanitize_brand_content ''Our Lending'' = ''Lending Partners In Our Network''"
    unfolding sanitize_brand_content_passes by code_simp
  have d: "check_brand_compliance ''our lending partners fund equipment''
        = (False, [''our lending''])"
    by code_simp
  have e: "check_brand_compliance ''OUR LENDING'' = (False, [''our lending''])"
    by code_simp
  show ?thesis by (simp only: a b c d e simp_thms)
qed


subsection \<open>Link injection: the caps\<close>

lemma inject_field_bounds:
  "inject_field tmpl ls fc fl li = Inr (fc', fl', li') \<Longrightarrow> fl \<le> 2 \<Longrightarrow> li \<le> 5 \<Longrightarrow>
     fl' \<le> 2 \<and> li' \<le> 5 \<and> fl \<le> fl' \<and> li' = li + (fl' - fl)"
proof (induction ls arbitrary: fc fl li)
  case Nil
  then show ?case by simp
next
  case (Cons l ls)
  then show ?case
    by (auto simp: max_links_per_field_def split: if_splits option.splits sum.splits)
       (fastforce+)
qed

lemma inject_fields_bounds:
  "inject_fields tmpl links fs content li = Inr (c, counts, n) \<Longrightarrow> li \<le> 5 \<Longrightarrow>
     n \<le> 5 \<and> (\<forall>(f, k) \<in> set counts. k \<le> 2) \<and> n = li + sum_list (map snd counts)"
proof (induction fs arbitrary: content li c counts n)
  case Nil
  then show ?case by simp
next
  case (Cons f fs)
  show ?case
  proof (cases "\<exists>s. map_of content f = Some (JStr s)")
    case False
    then have "inject_fields tmpl links (f # fs) content li = inject_fields tmpl links fs content li"
      by (auto split: option.splits json.splits)
    with Cons.prems(1) have "inject_fields tmpl links fs content li = Inr (c, counts, n)"
      by (simp only:)
    from Cons.IH [OF this Cons.prems(2)] show ?thesis .
  next
    case True
    then obtain s where s: "map_of content f = Some (JStr s)" by blast
    from Cons.prems(1) s obtain fc fl li1 c1 counts1 where
      a: "inject_field tmpl links s 0 li = Inr (fc, fl, li1)" and
      b: "inject_fields tmpl links fs (dict_set f (JStr fc) content) li1 = Inr (c1, counts1, n)" and
      c: "c = c1" "counts = (f, fl) # counts1"
      by (auto split: sum.splits)
    from inject_field_bounds [OF a] Cons.prems(2) have fl: "fl \<le> 2" "li1 \<le> 5" "li1 = li + fl" by auto
    from Cons.IH [OF b fl(2)] fl c show ?thesis by auto
  qed
qed

text \<open>
  Both caps hold on every run that returns: no field gets more than two substitutions,
  and the substitutions of all fields together are at most five.
\<close>

lemma inject_links_caps:
  "inject_fields tmpl links linkable_fields content 0 = Inr (c, counts, n) \<Longrightarrow>
     n \<le> 5 \<and> (\<forall>(f, k) \<in> set counts. k \<le> 2) \<and> n = sum_list (map snd counts)"
  using inject_fields_bounds [of tmpl links linkable_fields content 0 c counts n] by simp

text \<open>
  Claim C6 (not met by the code).  The two lookbehinds and the two lookaheads of the
  pattern look only at the characters next to the match.  A variation that is a proper
  part of an anchor text, or that occurs in the URL of an \<open>href\<close>, is therefore found
  inside an existing anchor and wrapped again.  The first equation is a run on plain
  text; the second is a run of the same link on its result, which wraps the first word
  of the anchor text in a second anchor; the third shows the commoner case, a second
  anchor put inside the \<open>href\<close> of the first.
\<close>

theorem inject_links_rewraps_linked_text:
  \<open>inject_links_into_content no_escapes
      [(''intro'', JStr ''See mini digger loans now'')] [digger_link]
    = Inr [(''intro'',
            JStr ''See <a href="/equipment/excavator-financing/">mini digger loans</a> now'')]
   \<and> inject_links_into_content no_escapes
      [(''intro'',
        JStr ''See <a href="/equipment/excavator-financing/">mini digger loans</a> now'')]
      [digger_link]
    = Inr [(''intro'',
            JStr (''See <a href="/equipment/excavator-financing/">'' @
                  ''<a href="/equipment/excavator-financing/">mini</a> digger loans</a> now''))]
   \<and> inject_links_into_content no_escapes
      [(''intro'',
        JStr ''See <a href="/equipment/excavator-financing/">excavator financing</a> now'')]
      [financing_link]
    = Inr [(''intro'',
            JStr (''See <a href="/equipment/'' @
                  ''<a href="/equipment/excavator-financing/">excavator</a>'' @
                  ''-financing/">excavator financing</a> now''))]\<close>
proof -
  have a: \<open>inject_links_into_content no_escapes
      [(''intro'', JStr ''See mini digger loans now'')] [digger_link]
    = Inr [(''intro'',
            JStr ''See <a href="/equipment/excavator-financing/">mini digger loans</a> now'')]\<close>
    by code_simp
  have b: \<open>inject_links_into_content no_escapes
      [(''intro'',
        JStr ''See <a href="/equipment/excavator-financing/">mini digger loans</a> now'')]
      [digger_link]
    = Inr [(''intro'',
            JStr (''See <a href="/equipment/excavator-financing/">'' @
                  ''<a href="/equipment/excavator-financing/">mini</a> digger loans</a> now''))]\<close>
    by code_simp
  have c: \<open>inject_links_into_content no_escapes
      [(''intro'',
        JStr ''See <a href="/equipment/excavator-financing/">excavator financing</a> now'')]
      [financing_link]
    = Inr [(''intro'',
            JStr (''See <a href="/equipment/'' @
                  ''<a href="/equipment/excavator-financing/">excavator</a>'' @
                  ''-financing/">excavator financing</a> now''))]\<close>
    by code_simp
  from a b c show ?thesis by (intro conjI)
qed


subsection \<open>Link injection: re-running\<close>

lemma ci_prefix_length: "ci_prefix p s \<Longrightarrow> length p \<le> length s"
  by (induction p s rule: ci_prefix.induct) (auto split: if_splits)

lemma matches_at_prefix: "matches_at v rb rest \<Longrightarrow> ci_prefix v rest"
  by (auto simp: matches_at_def split: if_splits)

lemma search_from_parts:
  "search_from v rb rest = Some (b, m, a) \<Longrightarrow>
     rev rb @ rest = b @ m @ a \<and> length m = length v"
proof (induction rest arbitrary: rb)
  case Nil
  then show ?case
    by (auto split: if_splits dest!: matches_at_prefix ci_prefix_length)
next
  case (Cons c s)
  show ?case
  proof (cases "matches_at v rb (c # s)")
    case True
    with Cons.prems have "b = rev rb" "m = take (length v) (c # s)" "a = drop (length v) (c # s)"
      by auto
    moreover from True have "length v \<le> length (c # s)"
      by (intro ci_prefix_length matches_at_prefix)
    ultimately show ?thesis by simp
  next
    case False
    with Cons.prems have "search_from v (c # rb) s = Some (b, m, a)" by simp
    from Cons.IH [OF this] show ?thesis by simp
  qed
qed

lemma lower_char_backslash: "lower_char c = CHR 0x5C \<Longrightarrow> c = CHR 0x5C"
proof (cases "map_of (zip (ascii_uppercase @ latin1_uppercase)
                       (ascii_lowercase @ latin1_lowercase)) c")
  case None
  then show "lower_char c = CHR 0x5C \<Longrightarrow> c = CHR 0x5C" by (simp add: lower_char_def)
next
  case (Some d)
  then have "d \<in> set (ascii_lowercase @ latin1_lowercase)"
    by (auto dest!: map_of_SomeD set_zip_rightD)
  then have "d \<noteq> CHR 0x5C"
    by (auto simp: ascii_lowercase_def latin1_lowercase_def)
  with Some show "lower_char c = CHR 0x5C \<Longrightarrow> c = CHR 0x5C" by (simp add: lower_char_def)
qed

lemma lower_backslash: "CHR 0x5C \<notin> set s \<Longrightarrow> CHR 0x5C \<notin> set (lower s)"
  by (auto simp: lower_def dest: lower_char_backslash [OF sym])

lemma set_replace_from: "set (replace_from old new s) \<subseteq> set s \<union> set new"
proof (induction old new s rule: replace_from.induct)
  case (1 old new s)
  show ?case
  proof (cases "s = []")
    case True
    then show ?thesis by (simp add: replace_from.simps)
  next
    case False
    show ?thesis
    proof (cases "old \<noteq> [] \<and> prefix old s")
      case True
      with False 1(1) have "set (replace_from old new (drop (length old) s)) \<subseteq> set (drop (length old) s) \<union> set new"
        by simp
      moreover have "set (drop (length old) s) \<subseteq> set s" by (rule set_drop_subset)
      ultimately show ?thesis using True False by (subst replace_from.simps) auto
    next
      case F2: False
      with False 1(2) have "set (replace_from old new (tl s)) \<subseteq> set (tl s) \<union> set new" by simp
      moreover have "set (tl s) \<subseteq> set s" using False by (cases s) auto
      moreover have "hd s \<in> set s" using False by simp
      ultimately show ?thesis using F2 False by (subst replace_from.simps) auto
    qed
  qed
qed

lemma set_split_from: "w \<in> set (split_from cur s) \<Longrightarrow> set w \<subseteq> set cur \<union> set s"
  by (induction s arbitrary: cur) (fastforce split: if_splits)+

lemma variations_backslash:
  assumes "CHR 0x5C \<notin> set t" "variations_of t = Inr vs" "Some v \<in> set vs"
  shows "CHR 0x5C \<notin> set v"
proof -
  have r: "CHR 0x5C \<notin> set (replace '' financing'' [] t)"
    using set_replace_from [of "'' financing''" "[]" t] assms(1) by (auto simp: replace_def)
  have w: "\<And>w. w \<in> set (split_ws t) \<Longrightarrow> CHR 0x5C \<notin> set w"
    using set_split_from [of _ "[]" t] assms(1) by (auto simp: split_ws_def)
  from assms(2,3) consider "v = t" | "v = lower t" | "v = replace '' financing'' [] t"
    | "v \<in> set (split_ws t)"
    by (auto simp: variations_of_def Let_def split: if_splits list.splits)
  then show ?thesis using assms(1) r w lower_backslash by cases auto
qed

lemma try_variations_grows:
  assumes "\<And>v. Some v \<in> set vs \<Longrightarrow> CHR 0x5C \<notin> set v" "CHR 0x5C \<notin> set u"
    "try_variations tmpl u vs fc = Inr (Some fc')"
  shows "length fc < length fc'"
  using assms
proof (induction tmpl u vs fc rule: try_variations.induct)
  case (1 tmpl u field_content)
  then show ?case by simp
next
  case (2 tmpl u vs field_content)
  then show ?case by simp
next
  case (3 tmpl u variation vs field_content)
  show ?case
  proof (cases "variation = [] \<or> length variation < 4")
    case True
    with 3 show ?thesis by simp
  next
    case False
    show ?thesis
    proof (cases "search_from variation [] field_content")
      case None
      with False 3 show ?thesis by simp
    next
      case (Some r)
      obtain b m a where r: "r = (b, m, a)" by (cases r)
      from search_from_parts [of variation "[]" field_content b m a] Some r
      have parts: "field_content = b @ m @ a" "length m = length variation" by auto
      have nb: "CHR 0x5C \<notin> set variation" using 3(3) [of variation] by simp
      have ex: \<open>expand_template tmpl (''<a href="'' @ u @ ''">'' @ variation @ ''</a>'') m
                = Inr (''<a href="'' @ u @ ''">'' @ variation @ ''</a>'')\<close>
        using nb 3(4) by (simp add: expand_template_def)
      from 3(5) False Some r ex
      have \<open>fc' = b @ (''<a href="'' @ u @ ''">'' @ variation @ ''</a>'') @ a\<close> by simp
      then show ?thesis using parts by simp
    qed
  qed
qed

lemma inject_field_grows:
  "\<forall>l \<in> set ls. backslash_free l \<Longrightarrow> inject_field tmpl ls fc fl li = Inr (fc', fl', li') \<Longrightarrow>
     length fc \<le> length fc'"
proof (induction ls arbitrary: fc fl li)
  case Nil
  then show ?case by simp
next
  case (Cons l ls)
  have IH: "\<And>fc fl li. inject_field tmpl ls fc fl li = Inr (fc', fl', li') \<Longrightarrow> length fc \<le> length fc'"
    using Cons.IH Cons.prems(1) by simp
  show ?case
  proof (cases "fl \<ge> max_links_per_field \<or> li \<ge> 5")
    case True
    with Cons.prems(2) show ?thesis by (auto split: if_splits)
  next
    case False
    show ?thesis
    proof (cases "link_text l")
      case None
      with False Cons.prems(2) IH show ?thesis by auto
    next
      case (Some t)
      show ?thesis
      proof (cases "t = [] \<or> link_url l = []")
        case True
        with False Some Cons.prems(2) IH show ?thesis by auto
      next
        case F: False
        from Cons.prems(1) Some have bf: "CHR 0x5C \<notin> set t" "CHR 0x5C \<notin> set (link_url l)"
          by (auto simp: backslash_free_def)
        from False Some F Cons.prems(2) obtain vs where vs: "variations_of t = Inr vs"
          by (auto split: sum.splits)
        from False Some F Cons.prems(2) vs obtain r where r: "try_variations tmpl (link_url l) vs fc = Inr r"
          by (auto split: sum.splits)
        show ?thesis
        proof (cases r)
          case None
          with False Some F Cons.prems(2) vs r IH show ?thesis by auto
        next
          case (Some fc1)
          have "length fc < length fc1"
            using try_variations_grows [of vs "link_url l" tmpl fc fc1] variations_backslash [OF bf(1) vs] bf(2) r Some
            by blast
          moreover from False \<open>link_text l = Some t\<close> F Cons.prems(2) vs r Some
          have "inject_field tmpl ls fc1 (fl + 1) (li + 1) = Inr (fc', fl', li')" by auto
          from IH [OF this] have "length fc1 \<le> length fc'" .
          ultimately show ?thesis by simp
        qed
      qed
    qed
  qed
qed

lemma map_of_dict_set: "map_of (dict_set k v d) = (map_of d)(k \<mapsto> v)"
  by (induction d) (auto simp: fun_eq_iff)

lemma inject_fields_main_content:
  "\<forall>l \<in> set links. backslash_free l \<Longrightarrow>
   inject_fields tmpl links fs content li = Inr (c, counts, n) \<Longrightarrow>
   map_of content ''main_content'' = Some (JStr s) \<Longrightarrow>
   \<exists>s'. map_of c ''main_content'' = Some (JStr s') \<and> length s \<le> length s'"
proof (induction fs arbitrary: content li c counts n s)
  case Nil
  then show ?case by auto
next
  case (Cons f fs)
  show ?case
  proof (cases "\<exists>t. map_of content f = Some (JStr t)")
    case False
    then have "inject_fields tmpl links (f # fs) content li = inject_fields tmpl links fs content li"
      by (auto split: option.splits json.splits)
    with Cons.prems(2) have "inject_fields tmpl links fs content li = Inr (c, counts, n)"
      by (simp only:)
    from Cons.IH [OF Cons.prems(1) this Cons.prems(3)] show ?thesis .
  next
    case True
    then obtain t where t: "map_of content f = Some (JStr t)" by blast
    from Cons.prems(2) t obtain fc fl li1 c1 counts1 where
      a: "inject_field tmpl links t 0 li = Inr (fc, fl, li1)" and
      b: "inject_fields tmpl links fs (dict_set f (JStr fc) content) li1 = Inr (c1, counts1, n)" and
      c: "c = c1"
      by (auto split: sum.splits)
    from inject_field_grows [OF Cons.prems(1) a] have g: "length t \<le> length fc" .
    show ?thesis
    proof (cases "f = ''main_content''")
      case True
      with t Cons.prems(3) have "t = s" by simp
      have "map_of (dict_set f (JStr fc) content) ''main_content'' = Some (JStr fc)"
        using True by (simp add: map_of_dict_set)
      from Cons.IH [OF Cons.prems(1) b this] g \<open>t = s\<close> c show ?thesis by auto
    next
      case False
      then have "map_of (dict_set f (JStr fc) content) ''main_content'' = Some (JStr s)"
        using Cons.prems(3) by (simp add: map_of_dict_set)
      from Cons.IH [OF Cons.prems(1) b this] c show ?thesis by auto
    qed
  qed
qed

lemma related_html_nonempty: "ls \<noteq> [] \<Longrightarrow> generate_related_links_html ls \<noteq> []"
  by (simp add: generate_related_links_html_def)

text \<open>
  Claim C7, as stated, fails: a second run appends the related-links block a second
  time.  The link here has an anchor text of three characters, so no variation is tried
  and the body itself is left alone.
\<close>

theorem related_block_duplicated_on_rerun:
  "inject_links_into_content no_escapes [(''main_content'', JStr ''Plain text.'')] [jcb_link]
     = Inr [(''main_content'', JStr (''Plain text.'' @ [CHR 0x0A, CHR 0x0A] @ jcb_block))]
   \<and> inject_links_into_content no_escapes
       [(''main_content'', JStr (''Plain text.'' @ [CHR 0x0A, CHR 0x0A] @ jcb_block))] [jcb_link]
     = Inr [(''main_content'',
             JStr (''Plain text.'' @ [CHR 0x0A, CHR 0x0A] @ jcb_block @
                   [CHR 0x0A, CHR 0x0A] @ jcb_block))]
   \<and> inject_links_into_content no_escapes
       [(''main_content'', JStr (''Plain text.'' @ [CHR 0x0A, CHR 0x0A] @ jcb_block))] [jcb_link]
     \<noteq> Inr [(''main_content'', JStr (''Plain text.'' @ [CHR 0x0A, CHR 0x0A] @ jcb_block))]"
proof -
  have a: "inject_links_into_content no_escapes [(''main_content'', JStr ''Plain text.'')] [jcb_link]
     = Inr [(''main_content'', JStr (''Plain text.'' @ [CHR 0x0A, CHR 0x0A] @ jcb_block))]"
    by code_simp
  have b: "inject_links_into_content no_escapes
       [(''main_content'', JStr (''Plain text.'' @ [CHR 0x0A, CHR 0x0A] @ jcb_block))] [jcb_link]
     = Inr [(''main_content'',
             JStr (''Plain text.'' @ [CHR 0x0A, CHR 0x0A] @ jcb_block @
                   [CHR 0x0A, CHR 0x0A] @ jcb_block))]"
    by code_simp
  have c: "jcb_block \<noteq> []" by (simp add: jcb_block_def)
  from a b c show ?thesis by simp
qed

text \<open>
  Claim C7, amended.  A run is never without effect on a document that has a string
  \<open>main_content\<close>, given at least one candidate link (the links holding no backslash):
  the run appends the related-links block, which is not empty, to \<open>main_content\<close>, after
  a body that is at least as long as before.  So the document returned differs from the
  one given, and a re-run appends the block once more.
\<close>

theorem related_block_appended_on_every_run:
  assumes links: "related_links \<noteq> []" "\<forall>l \<in> set related_links. backslash_free l"
    and main: "map_of content ''main_content'' = Some (JStr m)"
    and run: "inject_links_into_content tmpl content related_links = Inr c"
  shows "\<exists>m'. map_of c ''main_content''
            = Some (JStr (m' @ [CHR 0x0A, CHR 0x0A] @ generate_related_links_html related_links))
          \<and> length m \<le> length m'
          \<and> generate_related_links_html related_links \<noteq> []
          \<and> c \<noteq> content"
proof -
  from main have ne: "content \<noteq> []" by auto
  from run links(1) ne obtain c1 counts n where
    f: "inject_fields tmpl related_links linkable_fields content 0 = Inr (c1, counts, n)"
    by (auto simp: inject_links_into_content_def split: sum.splits)
  from inject_fields_main_content [OF links(2) f main] obtain m' where
    m': "map_of c1 ''main_content'' = Some (JStr m')" "length m \<le> length m'" by blast
  from run links(1) ne f m' have c: "c = dict_set ''main_content''
      (JStr (m' @ [CHR 0x0A, CHR 0x0A] @ generate_related_links_html related_links)) c1"
    by (simp add: inject_links_into_content_def)
  then have r: "map_of c ''main_content''
      = Some (JStr (m' @ [CHR 0x0A, CHR 0x0A] @ generate_related_links_html related_links))"
    by (simp add: map_of_dict_set)
  have "c \<noteq> content"
  proof
    assume "c = content"
    with r main have "m = m' @ [CHR 0x0A, CHR 0x0A] @ generate_related_links_html related_links"
      by simp
    then have "length m = length m' + 2 + length (generate_related_links_html related_links)" by simp
    with m'(2) show False by simp
  qed
  with r m'(2) related_html_nonempty [OF links(1)] show ?thesis by blast
qed

theorem related_block_appended_on_every_run_witness:
  "[jcb_link] \<noteq> [] \<and> backslash_free jcb_link
   \<and> map_of [(''main_content'', JStr ''Plain text.'')] ''main_content''
        = Some (JStr ''Plain text.'')
   \<and> inject_links_into_content no_escapes [(''main_content'', JStr ''Plain text.'')] [jcb_link]
        = Inr [(''main_content'', JStr (''Plain text.'' @ [CHR 0x0A, CHR 0x0A] @ jcb_block))]
   \<and> (\<exists>m'. map_of [(''main_content'', JStr (''Plain text.'' @ [CHR 0x0A, CHR 0x0A] @ jcb_block))]
              ''main_content''
            = Some (JStr (m' @ [CHR 0x0A, CHR 0x0A] @ generate_related_links_html [jcb_link]))
          \<and> length ''Plain text.'' \<le> length m'
          \<and> generate_related_links_html [jcb_link] \<noteq> []
          \<and> [(''main_content'', JStr (''Plain text.'' @ [CHR 0x0A, CHR 0x0A] @ jcb_block))]
              \<noteq> [(''main_content'', JStr ''Plain text.'')])"
proof -
  have links: "[jcb_link] \<noteq> []" "\<forall>l \<in> set [jcb_link]. backslash_free l"
    by (simp_all add: backslash_free_def jcb_link_def)
  have main: "map_of [(''main_content'', JStr ''Plain text.'')] ''main_content''
        = Some (JStr ''Plain text.'')" by simp
  have run: "inject_links_into_content no_escapes [(''main_content'', JStr ''Plain text.'')] [jcb_link]
        = Inr [(''main_content'', JStr (''Plain text.'' @ [CHR 0x0A, CHR 0x0A] @ jcb_block))]"
    by code_simp
  have free: "backslash_free jcb_link" using links(2) by simp
  from related_block_appended_on_every_run [OF links main run] links(1) free main run
  show ?thesis by blast
qed


subsection \<open>Content generation: what a run writes\<close>

lemma update_node_id [simp]: "update_node w i (\<lambda>n. n) = w"
  by (simp add: update_node_def)



lemma map_sum_Some: "map_sum id Some x = Inr y \<Longrightarrow> \<exists>s. y = Some s"
  by (cases x) auto

lemma other_fields_id [simp]: "node_id (other_fields u n) = node_id n"
  by (simp add: other_fields_def Let_def split: option.splits)

lemma other_fields_sets:
  "status (other_fields u n) = Some (ud_status u)"
  "publish_gate_status (other_fields u n) = Some (ud_publish_gate_status u)"
  "publish_gate_reason (other_fields u n) = ud_publish_gate_reason u"
  "faq_count (other_fields u n) = Some (ud_faq_count u)"
  "sources_used (other_fields u n) = Some (ud_sources_used u)"
  "short_description (other_fields u n) = ud_short_description u"
  by (simp_all add: other_fields_def Let_def split: option.splits)

lemma other_fields_schema:
  "ud_schema_json u = Some sch \<Longrightarrow>
     schema_json (other_fields u n) = sch \<and> has_schema_markup (other_fields u n) = Some True"
  by (simp add: other_fields_def Let_def)

lemma other_fields_keeps:
  "generated_content (other_fields u n) = generated_content n"
  "word_count (other_fields u n) = word_count n"
  "content_version (other_fields u n) = content_version n"
  by (simp_all add: other_fields_def Let_def split: option.splits)

lemma build_update_data_fields:
  assumes "build_update_data env n et parsed = Inr (u, wc, g)"
  shows "ud_status u = (if passed g then ''ready_to_publish'' else ''blocked_quality'')"
    and "ud_publish_gate_status u = (if passed g then ''passed'' else ''blocked'')"
    and "ud_publish_gate_reason u = (if gate_failures g \<noteq> [] then Some (gate_failures g) else None)"
    and "ud_word_count u = wc" and "ud_sources_used u = sources env"
    and "\<exists>sch. ud_schema_json u = Some sch"
    and "\<exists>content. validate_quality_gates content (sources env) 800 2 4 = Inr g"
  using assms
  by (auto simp: build_update_data_def Let_def ENABLE_SCHEMA_def
           split: json.splits sum.splits if_splits dest: map_sum_Some)


lemma generate_writes:
  assumes found: "get_node w i = Some n"
    and valid: "generation_validation w n = []"
    and et: "linked_equipment_type w n = Some et"
    and budget: "budget_ok env"
    and reply: "reply env = Inr parsed" "truthy parsed"
    and built: "build_update_data env n et parsed = Inr (u, wc, g)"
  shows "fst (generate_content_for_node env w i) =
           \<lparr>gen_success = True, gen_error = None, gen_validation_errors = [],
            res_lsi_keywords = lsi_keywords env, schema_generated = True,
            res_word_count = Some wc, gate_passed = Some (passed g)\<rparr>"
    and "snd (generate_content_for_node env w i) =
           update_node (snd (update_content_safe w i (ud_generated_content u) wc)) i (other_fields u)"
  using assms
  by (simp_all add: generate_content_for_node_def Let_def ENABLE_CONTENT_VERSIONING_def
        ENABLE_SCHEMA_def)



subsection \<open>Strings without the letters of the banned phrases\<close>

lemma replace_from_absent:
  "old \<noteq> [] \<Longrightarrow> hd old \<notin> set s \<Longrightarrow> replace_from old new s = s"
proof (induction s)
  case Nil
  then show ?case by (simp add: replace_from.simps)
next
  case (Cons c s)
  have "\<not> prefix old (c # s)"
  proof
    assume "prefix old (c # s)"
    with Cons.prems(1) have "hd old = c" by (cases old) auto
    with Cons.prems(2) show False by simp
  qed
  moreover have "replace_from old new s = s" using Cons by simp
  ultimately show ?case by (subst replace_from.simps) simp
qed

lemma replace_absent: "old \<noteq> [] \<Longrightarrow> hd old \<notin> set s \<Longrightarrow> replace old new s = s"
  by (simp add: replace_def replace_from_absent)

lemma contains_subset: "contains t p \<Longrightarrow> set p \<subseteq> set t"
proof (induction t)
  case Nil
  then show ?case by simp
next
  case (Cons a t)
  from Cons.prems have "prefix p (a # t) \<or> contains t p" by simp
  then show ?case
  proof
    assume "prefix p (a # t)"
    then show ?thesis by (rule set_mono_prefix)
  next
    assume "contains t p"
    with Cons.IH show ?thesis by auto
  qed
qed

lemma split_from_word_space:
  "\<not> is_space c \<Longrightarrow> is_space d \<Longrightarrow> split_from [] (c # d # s) = [c] # split_from [] s"
  by simp

lemma split_ws_replicate: "split_from [] (concat (replicate n ''a '') @ s) = replicate n ''a'' @ split_from [] s"
  by (induction n) (simp_all add: is_space_def whitespace_def)

lemma count_replicate: "length (split_ws (concat (replicate n ''a ''))) = n"
  using split_ws_replicate [of n "[]"] by (simp add: split_ws_def)

lemma lower_char_cases:
  "lower_char c = d \<Longrightarrow>
     c = d \<or> (c, d) \<in> set (zip (ascii_uppercase @ latin1_uppercase)
                              (ascii_lowercase @ latin1_lowercase))"
  by (auto simp: lower_char_def split: option.splits dest: map_of_SomeD)

lemma lower_char_eq_e: "lower_char c = CHR ''e'' \<Longrightarrow> c = CHR ''e'' \<or> c = CHR ''E''"
  using lower_char_cases [of c "CHR ''e''"]
  by (simp add: ascii_uppercase_def ascii_lowercase_def latin1_uppercase_def
        latin1_lowercase_def)

lemma lower_char_eq_u: "lower_char c = CHR ''u'' \<Longrightarrow> c = CHR ''u'' \<or> c = CHR ''U''"
  using lower_char_cases [of c "CHR ''u''"]
  by (simp add: ascii_uppercase_def ascii_lowercase_def latin1_uppercase_def
        latin1_lowercase_def)

lemma sanitize_brand_content_absent:
  assumes "CHR ''o'' \<notin> set s" "CHR ''w'' \<notin> set s" "CHR ''g'' \<notin> set s"
    "CHR ''O'' \<notin> set s" "CHR ''W'' \<notin> set s" "CHR ''G'' \<notin> set s"
  shows "sanitize_brand_content s = s"
  unfolding sanitize_brand_content_passes using assms by (simp add: replace_absent)

lemma check_brand_compliance_clean:
  assumes "CHR ''e'' \<notin> set t" "CHR ''E'' \<notin> set t" "CHR ''u'' \<notin> set t" "CHR ''U'' \<notin> set t"
  shows "check_brand_compliance t = (True, [])"
proof -
  have e: "CHR ''e'' \<notin> set (lower t)" and u: "CHR ''u'' \<notin> set (lower t)"
    using assms by (auto simp: lower_def dest: lower_char_eq_e [OF sym] lower_char_eq_u [OF sym])
  have "\<not> contains (lower t) p" if "p \<in> set BANNED_PHRASES" for p
  proof
    assume "contains (lower t) p"
    then have "set p \<subseteq> set (lower t)" by (rule contains_subset)
    moreover from that have "CHR ''e'' \<in> set p \<or> CHR ''u'' \<in> set p"
      by (auto simp: BANNED_PHRASES_def)
    ultimately show False using e u by auto
  qed
  then have "filter (\<lambda>phrase. contains (lower t) phrase) BANNED_PHRASES = []"
    by (simp add: filter_empty_conv)
  then show ?thesis by (simp add: check_brand_compliance_def Let_def)
qed

lemma set_long_text: "set long_text = {CHR ''a'', CHR '' ''}"
  by (auto simp: long_text_def)

lemma sanitize_long: "sanitize_brand_content long_text = long_text"
  by (rule sanitize_brand_content_absent) (simp_all add: set_long_text)

lemma sanitize_a: "sanitize_brand_content ''a'' = ''a''" "sanitize_brand_content ''a b'' = ''a b''"
  by (rule sanitize_brand_content_absent; simp)+

lemma words_long: "length (split_ws long_text) = 800"
  unfolding long_text_def by (rule count_replicate)

lemma words_a: "length (split_ws ''a'') = 1" "length (split_ws ''a b'') = 2"
  by (simp_all add: split_ws_def is_space_def whitespace_def)

lemma sanitize_long_reply: "map_results sanitize_entry long_reply = Inr long_reply"
  by (simp add: long_reply_def faq_item_def dict_get_def sanitize_long sanitize_a)


lemma count_long_reply: "content_word_count long_reply = Inr 808"
  by (simp add: content_word_count_def long_reply_def faq_item_def dict_get_def words_long words_a)




lemma escape_plain:
  "escape_char (CHR ''a'') = ''a''" "escape_char (CHR '' '') = '' ''"
  "escape_char (CHR ''b'') = ''b''" "escape_char (CHR ''i'') = ''i''"
  "escape_char (CHR ''n'') = ''n''" "escape_char (CHR ''t'') = ''t''"
  "escape_char (CHR ''r'') = ''r''" "escape_char (CHR ''o'') = ''o''"
  "escape_char (CHR ''f'') = ''f''" "escape_char (CHR ''q'') = ''q''"
  by code_simp+

lemma brand_long: "check_brand_compliance (json_dumps (JDict long_reply)) = (True, [])"
  by (rule check_brand_compliance_clean)
     (simp_all add: long_reply_def faq_item_def dumps_str_def set_long_text escape_plain)


lemma gate_long:
  "validate_quality_gates long_reply example_sources 800 2 4 =
     Inr \<lparr>passed = True, gate_failures = [], gate_word_count = 808, gate_faq_count = 4,
          gate_source_count = 2\<rparr>"
  by (simp only: validate_quality_gates_def Let_def brand_long)
     (simp add: long_reply_def faq_item_def dict_get_def words_long words_a example_sources_def)


lemma schema_exists:
  "\<exists>faqs qs. py_iter (if truthy f then f else JList []) = Inr faqs
      \<and> map_results faq_question faqs = Inr qs \<Longrightarrow>
   \<exists>sch. generate_schema_json site day st md slug eq g f = Inr sch"
  by (auto simp: generate_schema_json_def Let_def)

lemma build_update_data_eval:
  assumes "map_results sanitize_entry raw = Inr content"
    and "content_word_count content = Inr wc"
    and "validate_quality_gates content (sources env) 800 2 4 = Inr g"
    and "generate_schema_json (gen_site_url env) (today env)
           (dict_get content ''seo_title'' (json_of_str (primary_keyword n)))
           (dict_get content ''meta_desc'' (JStr [])) (fmt_str (url_slug n)) (et_name et) (geo n)
           (dict_get content ''faq'' (JList [])) = Inr sch"
    and "\<not> truthy (dict_get content ''short_description'' JNull)"
    and "py_len (dict_get (dict_set ''short_description''
                  (JStr (default_short_description (page_category n) (spoke_type n) (et_name et)))
                  content) ''faq'' (JList [])) = Inr fc"
  shows "\<exists>u. build_update_data env n et (JDict raw) = Inr (u, wc, g)
           \<and> ud_generated_content u = JDict (dict_set ''short_description''
                  (JStr (default_short_description (page_category n) (spoke_type n) (et_name et)))
                  content)"
  using assms by (simp add: build_update_data_def Let_def ENABLE_SCHEMA_def)

lemma built_long:
  "\<exists>u g. build_update_data (example_generation (JDict long_reply)) example_hub excavator_type
            (JDict long_reply) = Inr (u, 808, g)
         \<and> passed g \<and> ud_generated_content u \<noteq> generated_content example_hub"
proof -
  let ?env = "example_generation (JDict long_reply)"
  have src: "sources ?env = example_sources" by (simp add: example_generation_def)
  obtain sch where sch: "generate_schema_json (gen_site_url ?env) (today ?env)
           (dict_get long_reply ''seo_title'' (json_of_str (primary_keyword example_hub)))
           (dict_get long_reply ''meta_desc'' (JStr [])) (fmt_str (url_slug example_hub))
           (et_name excavator_type) (geo example_hub)
           (dict_get long_reply ''faq'' (JList [])) = Inr sch"
  proof -
    have "\<exists>faqs qs. py_iter (if truthy (dict_get long_reply ''faq'' (JList []))
                               then dict_get long_reply ''faq'' (JList []) else JList []) = Inr faqs
        \<and> map_results faq_question faqs = Inr qs"
      by (simp add: long_reply_def dict_get_def faq_item_def)
    from schema_exists [OF this] show ?thesis using that by blast
  qed
  have sd: "\<not> truthy (dict_get long_reply ''short_description'' JNull)"
    by (simp add: long_reply_def dict_get_def)
  have len: "py_len (dict_get (dict_set ''short_description''
                  (JStr (default_short_description (page_category example_hub)
                           (spoke_type example_hub) (et_name excavator_type)))
                  long_reply) ''faq'' (JList [])) = Inr 4"
    by (simp add: long_reply_def dict_get_def)
  from build_update_data_eval [OF sanitize_long_reply count_long_reply
      gate_long [folded src] sch sd len]
  obtain u where u: "build_update_data ?env example_hub excavator_type (JDict long_reply)
           = Inr (u, 808, \<lparr>passed = True, gate_failures = [], gate_word_count = 808,
                            gate_faq_count = 4, gate_source_count = 2\<rparr>)"
    "ud_generated_content u = JDict (dict_set ''short_description''
                  (JStr (default_short_description (page_category example_hub)
                           (spoke_type example_hub) (et_name excavator_type)))
                  long_reply)" by blast
  have "ud_generated_content u \<noteq> generated_content example_hub"
    by (simp add: u(2) example_hub_def long_reply_def)
  with u(1) show ?thesis by auto
qed



subsection \<open>Quality gates\<close>





subsection \<open>What the content-version guard does not protect\<close>

lemma other_fields_identity:
  "primary_keyword (other_fields u n) = primary_keyword n"
  "url_slug (other_fields u n) = url_slug n"
  "equipment_type_id (other_fields u n) = equipment_type_id n"
  "page_category (other_fields u n) = page_category n"
  "spoke_type (other_fields u n) = spoke_type n"
  "parent_hub_id (other_fields u n) = parent_hub_id n"
  "geo (other_fields u n) = geo n"
  by (simp_all add: other_fields_def Let_def split: option.splits)

lemma set_longer_text: "set longer_text = {CHR ''a'', CHR '' ''}"
  by (auto simp: longer_text_def)

lemma sanitize_longer: "sanitize_brand_content longer_text = longer_text"
  by (rule sanitize_brand_content_absent) (simp_all add: set_longer_text)

lemma words_longer: "length (split_ws longer_text) = 1600"
  unfolding longer_text_def by (rule count_replicate)

lemma sanitize_longer_reply: "map_results sanitize_entry longer_reply = Inr longer_reply"
  by (simp add: longer_reply_def faq_item_def dict_get_def sanitize_longer sanitize_a)

lemma count_longer_reply: "content_word_count longer_reply = Inr 1608"
  by (simp add: content_word_count_def longer_reply_def faq_item_def dict_get_def words_longer
        words_a)

lemma brand_longer: "check_brand_compliance (json_dumps (JDict longer_reply)) = (True, [])"
  by (rule check_brand_compliance_clean)
     (simp_all add: longer_reply_def faq_item_def dumps_str_def set_longer_text escape_plain)

lemma gate_longer:
  "validate_quality_gates longer_reply example_sources 800 2 4 =
     Inr \<lparr>passed = True, gate_failures = [], gate_word_count = 1608, gate_faq_count = 4,
          gate_source_count = 2\<rparr>"
  by (simp only: validate_quality_gates_def Let_def brand_longer)
     (simp add: longer_reply_def faq_item_def dict_get_def words_longer words_a
        example_sources_def)

text \<open>What a run on a reply with four FAQ items and no short description builds.\<close>

lemma built_reply:
  assumes clean: "map_results sanitize_entry r = Inr r"
    and count: "content_word_count r = Inr wc"
    and gate: "validate_quality_gates r example_sources 800 2 4 = Inr g"
    and faq: "dict_get r ''faq'' (JList []) = JList [faq_item, faq_item, faq_item, faq_item]"
    and sd: "dict_get r ''short_description'' JNull = JNull"
    and len: "py_len (dict_get (dict_set ''short_description''
                  (JStr (default_short_description (page_category n) (spoke_type n) (et_name et)))
                  r) ''faq'' (JList [])) = Inr 4"
  shows "\<exists>u. build_update_data (example_generation (JDict r)) n et (JDict r) = Inr (u, wc, g)
           \<and> ud_generated_content u = JDict (dict_set ''short_description''
                  (JStr (default_short_description (page_category n) (spoke_type n) (et_name et)))
                  r)"
proof -
  let ?env = "example_generation (JDict r)"
  have src: "sources ?env = example_sources" by (simp add: example_generation_def)
  obtain sch where sch: "generate_schema_json (gen_site_url ?env) (today ?env)
           (dict_get r ''seo_title'' (json_of_str (primary_keyword n)))
           (dict_get r ''meta_desc'' (JStr [])) (fmt_str (url_slug n))
           (et_name et) (geo n) (dict_get r ''faq'' (JList [])) = Inr sch"
  proof -
    have "\<exists>faqs qs. py_iter (if truthy (dict_get r ''faq'' (JList []))
                               then dict_get r ''faq'' (JList []) else JList []) = Inr faqs
        \<and> map_results faq_question faqs = Inr qs"
      unfolding faq by (simp add: faq_item_def dict_get_def)
    from schema_exists [OF this] show ?thesis using that by blast
  qed
  have sd': "\<not> truthy (dict_get r ''short_description'' JNull)" by (simp add: sd)
  from build_update_data_eval [OF clean count gate [folded src] sch sd' len]
  show ?thesis .
qed

lemma built_longer:
  "\<exists>u. build_update_data (example_generation (JDict longer_reply)) made_hub made_type
          (JDict longer_reply)
        = Inr (u, 1608, \<lparr>passed = True, gate_failures = [], gate_word_count = 1608,
                          gate_faq_count = 4, gate_source_count = 2\<rparr>)
      \<and> ud_generated_content u = JDict (dict_set ''short_description''
            (JStr (default_short_description (page_category made_hub) (spoke_type made_hub)
                     (et_name made_type))) longer_reply)"
  by (rule built_reply [OF sanitize_longer_reply count_longer_reply gate_longer])
     (simp_all add: longer_reply_def dict_get_def)

lemma built_long_on:
  "\<exists>u. build_update_data (example_generation (JDict long_reply)) n et (JDict long_reply)
        = Inr (u, 808, \<lparr>passed = True, gate_failures = [], gate_word_count = 808,
                        gate_faq_count = 4, gate_source_count = 2\<rparr>)
      \<and> ud_generated_content u = JDict (dict_set ''short_description''
            (JStr (default_short_description (page_category n) (spoke_type n) (et_name et)))
            long_reply)"
  by (rule built_reply [OF sanitize_long_reply count_long_reply gate_long])
     (simp_all add: long_reply_def dict_get_def)

text \<open>
  The registry after a first generation run on the hub that the decision engine made:
  the hub holds the 1608 words of that run, and its version is NULL.
\<close>

lemma hub_ready:
  "generation_validation hub_registry made_hub = []"
  "linked_equipment_type hub_registry made_hub = Some made_type"
  by (simp_all add: generation_validation_def linked_equipment_type_def hub_types made_hub_def
        blank_node_def made_type_def)

lemma equipment_types_update_node [simp]:
  "equipment_types (update_node w i f) = equipment_types w"
  by (simp add: update_node_def)

lemma generated_row:
  "\<exists>n. get_node generated_registry 2 = Some n
       \<and> generation_validation generated_registry n = []
       \<and> linked_equipment_type generated_registry n = Some made_type
       \<and> word_count n = Some 1608 \<and> content_version n = None
       \<and> generated_content n = JDict (dict_set ''short_description''
            (JStr (default_short_description (page_category made_hub) (spoke_type made_hub)
                     (et_name made_type))) longer_reply)
       \<and> page_category n = page_category made_hub \<and> spoke_type n = spoke_type made_hub"
proof -
  let ?env = "example_generation (JDict longer_reply)"
  from built_longer obtain u where
    built: "build_update_data ?env made_hub made_type (JDict longer_reply)
        = Inr (u, 1608, \<lparr>passed = True, gate_failures = [], gate_word_count = 1608,
                          gate_faq_count = 4, gate_source_count = 2\<rparr>)"
    and content: "ud_generated_content u = JDict (dict_set ''short_description''
            (JStr (default_short_description (page_category made_hub) (spoke_type made_hub)
                     (et_name made_type))) longer_reply)"
    by blast
  have budget: "budget_ok ?env" and reply: "reply ?env = Inr (JDict longer_reply)"
    by (simp_all add: example_generation_def)
  have t: "truthy (JDict longer_reply)" by (simp add: longer_reply_def)
  have nulls: "word_count made_hub = None" "content_version made_hub = None"
    by (simp_all add: made_hub_def blank_node_def)
  let ?w1 = "write_content hub_registry 2 (ud_generated_content u) 1608"
  let ?n1 = "made_hub\<lparr>generated_content := ud_generated_content u, word_count := Some 1608\<rparr>"
  have reg: "generated_registry = update_node ?w1 2 (other_fields u)"
    unfolding generated_registry_def
    using generate_writes(2) [OF hub_row hub_ready budget reply t built]
    by (simp add: update_content_safe_first_write [OF hub_row nulls(1)])
  have row1: "get_node ?w1 2 = Some ?n1" by (rule get_node_write_content [OF hub_row])
  have row: "get_node generated_registry 2 = Some (other_fields u ?n1)"
    using get_node_id [OF row1] by (simp add: reg get_node_update_node row1)
  have types: "equipment_types generated_registry = [made_type]"
    by (simp add: reg write_content_def hub_types)
  have "generation_validation generated_registry (other_fields u ?n1) = []"
    "linked_equipment_type generated_registry (other_fields u ?n1) = Some made_type"
    by (simp_all add: generation_validation_def linked_equipment_type_def types
          other_fields_identity made_hub_def blank_node_def made_type_def)
  with row nulls content show ?thesis
    by (simp add: other_fields_keeps other_fields_identity)
qed

lemma length_concat_replicate: "length (concat (replicate k ''a '')) = 2 * k"
  by (induction k) simp_all

lemma texts_differ: "long_text \<noteq> longer_text"
proof
  assume "long_text = longer_text"
  then have "length long_text = length longer_text" by simp
  then show False by (simp add: long_text_def longer_text_def length_concat_replicate)
qed

text \<open>
  Claim C10.  Let a generation run reach its writes with the update \<open>u\<close>, the new word
  count \<open>wc\<close> and the gate result \<open>g\<close>, on a node whose stored word count \<open>W\<close> makes the
  guard reject (\<open>wc < 0.9 * W\<close>).  The run succeeds, and the node afterwards is the old
  node with the other fields of \<open>u\<close> written: status, gate status and gate reason from
  \<open>g\<close>, FAQ count, sources, short description and schema from the rejected content;
  only \<open>generated_content\<close>, \<open>word_count\<close> and \<open>content_version\<close> are those of before.
  The witness is the second run on a hub that the program made and generated itself: its
  gate passes on 808 words, the node ends as \<open>ready_to_publish\<close>, and its content is still
  the 1608 words of the first run.
\<close>

theorem rejected_update_still_writes_gate_fields:
  assumes found: "get_node w i = Some n"
    and valid: "generation_validation w n = []"
    and et: "linked_equipment_type w n = Some et"
    and budget: "budget_ok env"
    and reply: "reply env = Inr parsed" "truthy parsed"
    and built: "build_update_data env n et parsed = Inr (u, wc, g)"
    and stored: "word_count n = Some W"
    and range: "0 \<le> W" "W < 2 ^ 49"
    and rejected: "(of_int wc :: rat) < 9 / 10 * of_int W"
  shows "gen_success (fst (generate_content_for_node env w i))
    \<and> get_node (snd (generate_content_for_node env w i)) i = Some (other_fields u n)
    \<and> generated_content (other_fields u n) = generated_content n
    \<and> word_count (other_fields u n) = Some W
    \<and> content_version (other_fields u n) = content_version n
    \<and> status (other_fields u n)
        = Some (if passed g then ''ready_to_publish'' else ''blocked_quality'')
    \<and> publish_gate_status (other_fields u n) = Some (if passed g then ''passed'' else ''blocked'')
    \<and> publish_gate_reason (other_fields u n)
        = (if gate_failures g \<noteq> [] then Some (gate_failures g) else None)
    \<and> faq_count (other_fields u n) = Some (ud_faq_count u)
    \<and> sources_used (other_fields u n) = Some (sources env)
    \<and> short_description (other_fields u n) = ud_short_description u
    \<and> (\<exists>sch. ud_schema_json u = Some sch \<and> schema_json (other_fields u n) = sch)
    \<and> has_schema_markup (other_fields u n) = Some True"
proof -
  have rej: "update_content_safe w i (ud_generated_content u) wc = (False, w)"
    by (rule update_content_safe_rejected [OF found stored range rejected])
  have w': "snd (generate_content_for_node env w i) = update_node w i (other_fields u)"
    using generate_writes(2) [OF found valid et budget reply built] rej by simp
  have node: "get_node (snd (generate_content_for_node env w i)) i = Some (other_fields u n)"
    using found get_node_id [OF found] by (simp add: w' get_node_update_node)
  from build_update_data_fields(6) [OF built] obtain sch where sch: "ud_schema_json u = Some sch"
    by blast
  show ?thesis
    using generate_writes(1) [OF found valid et budget reply built] node stored sch
      build_update_data_fields(1-5) [OF built] other_fields_schema [OF sch, of n]
    by (simp add: other_fields_sets other_fields_keeps)
qed

theorem rejected_update_still_writes_gate_fields_witness:
  "\<exists>n u g. get_node generated_registry 2 = Some n
     \<and> generation_validation generated_registry n = []
     \<and> linked_equipment_type generated_registry n = Some made_type
     \<and> budget_ok (example_generation (JDict long_reply))
     \<and> reply (example_generation (JDict long_reply)) = Inr (JDict long_reply)
     \<and> truthy (JDict long_reply)
     \<and> build_update_data (example_generation (JDict long_reply)) n made_type (JDict long_reply)
         = Inr (u, 808, g)
     \<and> passed g \<and> ud_generated_content u \<noteq> generated_content n
     \<and> word_count n = Some 1608 \<and> content_version n = None
     \<and> (0::int) \<le> 1608 \<and> (1608::int) < 2 ^ 49
     \<and> (of_int 808 :: rat) < 9 / 10 * of_int 1608
     \<and> gen_success (fst (generate_content_for_node (example_generation (JDict long_reply))
                            generated_registry 2))
     \<and> (\<exists>n'. get_node (snd (generate_content_for_node (example_generation (JDict long_reply))
                                generated_registry 2)) 2 = Some n'
            \<and> status n' = Some ''ready_to_publish''
            \<and> publish_gate_status n' = Some ''passed''
            \<and> generated_content n' = generated_content n
            \<and> word_count n' = Some 1608
            \<and> content_version n' = None)"
proof -
  let ?env = "example_generation (JDict long_reply)"
  from generated_row obtain n where
    found: "get_node generated_registry 2 = Some n"
    and valid: "generation_validation generated_registry n = []"
    and et: "linked_equipment_type generated_registry n = Some made_type"
    and stored: "word_count n = Some 1608" and version: "content_version n = None"
    and content: "generated_content n = JDict (dict_set ''short_description''
            (JStr (default_short_description (page_category made_hub) (spoke_type made_hub)
                     (et_name made_type))) longer_reply)"
    and same: "page_category n = page_category made_hub" "spoke_type n = spoke_type made_hub"
    by blast
  from built_long_on [of n made_type] obtain u where
    built: "build_update_data ?env n made_type (JDict long_reply)
        = Inr (u, 808, \<lparr>passed = True, gate_failures = [], gate_word_count = 808,
                        gate_faq_count = 4, gate_source_count = 2\<rparr>)"
    and new: "ud_generated_content u = JDict (dict_set ''short_description''
            (JStr (default_short_description (page_category n) (spoke_type n) (et_name made_type)))
            long_reply)"
    by blast
  have budget: "budget_ok ?env" and reply: "reply ?env = Inr (JDict long_reply)"
    by (simp_all add: example_generation_def)
  have t: "truthy (JDict long_reply)" by (simp add: long_reply_def)
  have range: "(0::int) \<le> 1608" "(1608::int) < 2 ^ 49" by simp_all
  have rejected: "(of_int 808 :: rat) < 9 / 10 * of_int 1608" by simp
  have differs: "ud_generated_content u \<noteq> generated_content n"
    by (simp add: new content same long_reply_def longer_reply_def texts_differ)
  let ?g = "\<lparr>passed = True, gate_failures = [], gate_word_count = 808,
                        gate_faq_count = 4, gate_source_count = 2\<rparr>"
  have p: "passed ?g" by simp
  from rejected_update_still_writes_gate_fields
    [OF found valid et budget reply t built stored range rejected] version stored
  have run: "gen_success (fst (generate_content_for_node ?env generated_registry 2))"
    and after: "\<exists>n'. get_node (snd (generate_content_for_node ?env generated_registry 2)) 2
                    = Some n'
            \<and> status n' = Some ''ready_to_publish''
            \<and> publish_gate_status n' = Some ''passed''
            \<and> generated_content n' = generated_content n
            \<and> word_count n' = Some 1608
            \<and> content_version n' = None"
    by simp_all
  from found valid et budget reply t built p differs stored version range rejected run after
  show ?thesis by blast
qed


subsection \<open>Decision engine: the dedup key\<close>

text \<open>
  Claim C1 (not met by the code): a request identical to an earlier one creates nothing
  and is reported as skipped.  \<open>check_page_exists\<close> asks for a NULL modifier when the
  modifier is the empty string, but \<open>create_spoke_page\<close> stores the empty string, so the
  row that the first request created is never found again.  On an empty registry the
  request \<open>texas_keyword\<close> creates the cluster and the Texas page (row 6).  The same request
  again, on a database without constraints, creates a second row with the same key
  (row 7) and reports one page created, none skipped; where \<open>url_slug\<close> is unique the
  insert is rejected, the registry stays as it is, and the request is reported neither
  as created nor as skipped.
\<close>

theorem identical_request_with_empty_modifier_not_skipped:
  "fst (decide_and_queue no_constraints empty_registry texas_keyword 100 10)
     = \<lparr>keyword = ''excavator financing texas'',
        actions = [''Created cluster: 4 pages'', ''Created financing spoke''],
        pages_created = 5, pages_skipped = 0, decision_error = None\<rparr>
   \<and> fst (decide_and_queue no_constraints (registered_once no_constraints) texas_keyword 100 10)
     = \<lparr>keyword = ''excavator financing texas'', actions = [''Created financing spoke''],
        pages_created = 1, pages_skipped = 0, decision_error = None\<rparr>
   \<and> map (\<lambda>n. (node_id n, equipment_type_id n, spoke_type n, geo n, modifier n))
         (drop 4 (nodes (snd (decide_and_queue no_constraints (registered_once no_constraints)
                                texas_keyword 100 10))))
     = [(6, Some 1, Some ''financing'', Some ''texas'', Some []),
        (7, Some 1, Some ''financing'', Some ''texas'', Some [])]
   \<and> fst (decide_and_queue unique_url_slug (registered_once unique_url_slug) texas_keyword 100 10)
     = \<lparr>keyword = ''excavator financing texas'', actions = [],
        pages_created = 0, pages_skipped = 0, decision_error = None\<rparr>
   \<and> snd (decide_and_queue unique_url_slug (registered_once unique_url_slug) texas_keyword 100 10)
     = registered_once unique_url_slug"
proof (intro conjI)
  show "fst (decide_and_queue no_constraints empty_registry texas_keyword 100 10)
     = \<lparr>keyword = ''excavator financing texas'',
        actions = [''Created cluster: 4 pages'', ''Created financing spoke''],
        pages_created = 5, pages_skipped = 0, decision_error = None\<rparr>"
    by code_simp
  show "fst (decide_and_queue no_constraints (registered_once no_constraints) texas_keyword 100 10)
     = \<lparr>keyword = ''excavator financing texas'', actions = [''Created financing spoke''],
        pages_created = 1, pages_skipped = 0, decision_error = None\<rparr>"
    by code_simp
  show "map (\<lambda>n. (node_id n, equipment_type_id n, spoke_type n, geo n, modifier n))
         (drop 4 (nodes (snd (decide_and_queue no_constraints (registered_once no_constraints)
                                texas_keyword 100 10))))
     = [(6, Some 1, Some ''financing'', Some ''texas'', Some []),
        (7, Some 1, Some ''financing'', Some ''texas'', Some [])]"
    by code_simp
  show "fst (decide_and_queue unique_url_slug (registered_once unique_url_slug) texas_keyword 100 10)
     = \<lparr>keyword = ''excavator financing texas'', actions = [],
        pages_created = 0, pages_skipped = 0, decision_error = None\<rparr>"
    by code_simp
  show "snd (decide_and_queue unique_url_slug (registered_once unique_url_slug) texas_keyword 100 10)
     = registered_once unique_url_slug"
    by code_simp
qed


subsection \<open>Decision engine: hub before spokes\<close>

text \<open>
  Claim C3 (not met by the code): every spoke persisted carries the \<open>parent_hub_id\<close> of an
  existing hub of its equipment type.  When the insert of the hub is rejected,
  \<open>create_equipment_cluster\<close> logs the exception and goes on to the default spokes.  After
  the keyword \<open>excavator\<close>, the slug \<open>excavator-financing\<close> belongs to a spoke; the hub keyword
  of the equipment type \<open>excavator financing\<close> then gets its equipment type (row 6), no hub,
  and three spokes (rows 7 to 9) whose \<open>parent_hub_id\<close> is NULL, reported as a cluster of
  three pages.
\<close>

theorem cluster_spokes_persisted_without_hub:
  "map (\<lambda>n. (node_id n, url_slug n, equipment_type_id n, page_category n, parent_hub_id n))
       (nodes excavator_registry)
     = [(2, Some ''excavator'', Some 1, Some ''hub'', None),
        (3, Some ''excavator-financing'', Some 1, Some ''spoke'', Some 2),
        (4, Some ''excavator-for-sale'', Some 1, Some ''spoke'', Some 2),
        (5, Some ''excavator-rental'', Some 1, Some ''spoke'', Some 2)]
   \<and> map (\<lambda>t. (et_id t, et_slug t, hub_node_id t)) (equipment_types excavator_registry)
     = [(1, ''excavator'', Some 2)]
   \<and> fst (decide_and_queue unique_url_slug excavator_registry financing_hub_keyword 0 0)
     = \<lparr>keyword = ''excavator financing'', actions = [''Created cluster: 3 pages''],
        pages_created = 3, pages_skipped = 0, decision_error = None\<rparr>
   \<and> map (\<lambda>t. (et_id t, et_slug t, hub_node_id t))
         (equipment_types (snd (decide_and_queue unique_url_slug excavator_registry
                                  financing_hub_keyword 0 0)))
     = [(1, ''excavator'', Some 2), (6, ''excavator-financing'', None)]
   \<and> find_hub (snd (decide_and_queue unique_url_slug excavator_registry
                       financing_hub_keyword 0 0)) 6 = None
   \<and> map (\<lambda>n. (node_id n, url_slug n, equipment_type_id n, page_category n, parent_hub_id n))
         (drop 4 (nodes (snd (decide_and_queue unique_url_slug excavator_registry
                                financing_hub_keyword 0 0))))
     = [(7, Some ''excavator-financing-financing'', Some 6, Some ''spoke'', None),
        (8, Some ''excavator-financing-for-sale'', Some 6, Some ''spoke'', None),
        (9, Some ''excavator-financing-rental'', Some 6, Some ''spoke'', None)]"
proof (intro conjI)
  show "map (\<lambda>n. (node_id n, url_slug n, equipment_type_id n, page_category n, parent_hub_id n))
       (nodes excavator_registry)
     = [(2, Some ''excavator'', Some 1, Some ''hub'', None),
        (3, Some ''excavator-financing'', Some 1, Some ''spoke'', Some 2),
        (4, Some ''excavator-for-sale'', Some 1, Some ''spoke'', Some 2),
        (5, Some ''excavator-rental'', Some 1, Some ''spoke'', Some 2)]"
    by code_simp
  show "map (\<lambda>t. (et_id t, et_slug t, hub_node_id t)) (equipment_types excavator_registry)
     = [(1, ''excavator'', Some 2)]"
    by code_simp
  show "fst (decide_and_queue unique_url_slug excavator_registry financing_hub_keyword 0 0)
     = \<lparr>keyword = ''excavator financing'', actions = [''Created cluster: 3 pages''],
        pages_created = 3, pages_skipped = 0, decision_error = None\<rparr>"
    by code_simp
  show "map (\<lambda>t. (et_id t, et_slug t, hub_node_id t))
         (equipment_types (snd (decide_and_queue unique_url_slug excavator_registry
                                  financing_hub_keyword 0 0)))
     = [(1, ''excavator'', Some 2), (6, ''excavator-financing'', None)]"
    by code_simp
  show "find_hub (snd (decide_and_queue unique_url_slug excavator_registry
                       financing_hub_keyword 0 0)) 6 = None"
    by code_simp
  show "map (\<lambda>n. (node_id n, url_slug n, equipment_type_id n, page_category n, parent_hub_id n))
         (drop 4 (nodes (snd (decide_and_queue unique_url_slug excavator_registry
                                financing_hub_keyword 0 0))))
     = [(7, Some ''excavator-financing-financing'', Some 6, Some ''spoke'', None),
        (8, Some ''excavator-financing-for-sale'', Some 6, Some ''spoke'', None),
        (9, Some ''excavator-financing-rental'', Some 6, Some ''spoke'', None)]"
    by code_simp
qed

end
